theory Spec2Isabelle
  imports Complex_Main "HOL-Library.Sublist" "HOL-Library.Monad_Syntax"
begin

section \<open>JavaScript strings\<close>

text \<open>
  A JavaScript string is a sequence of UTF-16 code units. The translation module walks
  strings by code point (\<^verbatim>\<open>for (const c of text)\<close>, \<^verbatim>\<open>[...t]\<close>) and measures them
  in code units (\<^verbatim>\<open>text.length\<close>), so a string is modelled as the list of code points
  that iteration yields; a code point above \<open>0xFFFF\<close> occupies two code units.
\<close>

type_synonym jsstring = "nat list"

definition str :: "string \<Rightarrow> jsstring" where
  "str s = map of_char s"

definition units :: "nat \<Rightarrow> nat" where
  "units c = (if c > 0xFFFF then 2 else 1)"

definition js_length :: "jsstring \<Rightarrow> nat" where
  "js_length t = sum_list (map units t)"

text \<open>
  \<^verbatim>\<open>String.prototype.trim\<close> removes leading and trailing WhiteSpace and LineTerminator
  code points (ECMAScript: TAB, VT, FF, SP, NBSP, ZWNBSP, the Zs category, LF, CR, LS, PS).
\<close>

definition is_ws :: "nat \<Rightarrow> bool" where
  "is_ws c \<longleftrightarrow>
     c = 0x9 \<or> c = 0xA \<or> c = 0xB \<or> c = 0xC \<or> c = 0xD \<or> c = 0x20 \<or> c = 0xA0 \<or>
     c = 0x1680 \<or> (0x2000 \<le> c \<and> c \<le> 0x200A) \<or> c = 0x2028 \<or> c = 0x2029 \<or>
     c = 0x202F \<or> c = 0x205F \<or> c = 0x3000 \<or> c = 0xFEFF"

definition trim :: "jsstring \<Rightarrow> jsstring" where
  "trim t = rev (dropWhile is_ws (rev (dropWhile is_ws t)))"

text \<open>\<^verbatim>\<open>s.slice(0, n)\<close>: the first \<open>n\<close> code units. A code point that straddles the cut
  leaves its high surrogate behind.\<close>

fun slice0 :: "nat \<Rightarrow> jsstring \<Rightarrow> jsstring" where
  "slice0 n [] = []"
| "slice0 n (c # cs) =
     (if n = 0 then []
      else if units c \<le> n then c # slice0 (n - units c) cs
      else [0xD800 + (c - 0x10000) div 0x400])"

section \<open>Translation filter (lib/translate.ts)\<close>

definition MAX_CHARS_PER_REQUEST :: nat where
  "MAX_CHARS_PER_REQUEST = 400"

text \<open>\<^verbatim>\<open>hasNonLatinScript\<close>: the loop over the code points with its six early returns.\<close>

fun hasNonLatinScript :: "jsstring \<Rightarrow> bool" where
  "hasNonLatinScript [] = False"
| "hasNonLatinScript (code # rest) =
     (if 0x0600 \<le> code \<and> code \<le> 0x06FF then True
      else if 0x0750 \<le> code \<and> code \<le> 0x077F then True
      else if 0x0400 \<le> code \<and> code \<le> 0x04FF then True
      else if 0x4E00 \<le> code \<and> code \<le> 0x9FFF then True
      else if 0x0590 \<le> code \<and> code \<le> 0x05FF then True
      else if 0x0E00 \<le> code \<and> code \<le> 0x0E7F then True
      else hasNonLatinScript rest)"

text \<open>The six blocks tested by \<^verbatim>\<open>hasNonLatinScript\<close>: Arabic, Arabic Supplement, Cyrillic,
  CJK Unified Ideographs, Hebrew, Thai.\<close>

abbreviation non_latin :: "nat \<Rightarrow> bool" where
  "non_latin c \<equiv>
     (0x0600 \<le> c \<and> c \<le> 0x06FF) \<or> (0x0750 \<le> c \<and> c \<le> 0x077F) \<or>
     (0x0400 \<le> c \<and> c \<le> 0x04FF) \<or> (0x4E00 \<le> c \<and> c \<le> 0x9FFF) \<or>
     (0x0590 \<le> c \<and> c \<le> 0x05FF) \<or> (0x0E00 \<le> c \<and> c \<le> 0x0E7F)"

text \<open>
  The character class of the regular expression in \<^verbatim>\<open>isLikelyEnglish\<close>, which carries the
  \<^verbatim>\<open>i\<close> flag: the listed lower-case letters \<open>U+00E0..E5, E7..EF, F1..F6, F9..FD, FF\<close>, the
  sharp s \<open>U+00DF\<close> (it has no single-unit upper case), and the upper-case partners
  \<open>U+00C0..C5, C7..CF, D1..D6, D9..DD\<close> and \<open>U+0178\<close>.
\<close>

definition diacritic :: "nat \<Rightarrow> bool" where
  "diacritic c \<longleftrightarrow>
     c = 0xDF \<or> (0xE0 \<le> c \<and> c \<le> 0xE5) \<or> (0xE7 \<le> c \<and> c \<le> 0xEF) \<or>
     (0xF1 \<le> c \<and> c \<le> 0xF6) \<or> (0xF9 \<le> c \<and> c \<le> 0xFD) \<or> c = 0xFF \<or>
     (0xC0 \<le> c \<and> c \<le> 0xC5) \<or> (0xC7 \<le> c \<and> c \<le> 0xCF) \<or>
     (0xD1 \<le> c \<and> c \<le> 0xD6) \<or> (0xD9 \<le> c \<and> c \<le> 0xDD) \<or> c = 0x178"

text \<open>
  \<^verbatim>\<open>isLikelyEnglish\<close>. The source compares \<^verbatim>\<open>nonAscii > t.length * 0.15\<close> in double
  precision; for every string length below \<open>2^53\<close> that comparison agrees with the exact
  one written here.
\<close>

definition isLikelyEnglish :: "jsstring \<Rightarrow> bool" where
  "isLikelyEnglish text =
     (if text = [] \<or> js_length text < 2 then True
      else let t = trim text in
        if hasNonLatinScript t then False
        else let nonAscii = length (filter (\<lambda>c. c > 127) t) in
          if (of_nat nonAscii :: rat) > of_nat (js_length t) * (15 / 100) then False
          else if list_ex diacritic t then False
          else True)"


section \<open>Parsed JSON and HTTP outcomes\<close>

text \<open>
  A value produced by \<^verbatim>\<open>JSON.parse\<close>. A number is kept as the text \<^verbatim>\<open>String(n)\<close> renders
  for it (zero renders as \<open>0\<close>), which is all the code observes of a number apart from
  \<^verbatim>\<open>typeof\<close>. The fields of an object are its own properties in insertion order, each key
  once (the parser keeps one value per key).
\<close>

datatype json =
    JNull
  | JBool bool
  | JNum jsstring
  | JStr jsstring
  | JArr "json list"
  | JObj "(jsstring \<times> json) list"

text \<open>JavaScript truthiness of a parsed value.\<close>

fun truthy :: "json \<Rightarrow> bool" where
  "truthy JNull = False"
| "truthy (JBool b) = b"
| "truthy (JNum n) = (n \<noteq> str ''0'')"
| "truthy (JStr s) = (s \<noteq> [])"
| "truthy (JArr xs) = True"
| "truthy (JObj kvs) = True"

text \<open>
  Property read \<^verbatim>\<open>v.k\<close> on a non-null value, \<open>None\<close> standing for \<^verbatim>\<open>undefined\<close>. The keys
  read by this program are never array indices, \<^verbatim>\<open>length\<close> or inherited names, so only an
  object has them.
\<close>

fun jsget :: "json \<Rightarrow> jsstring \<Rightarrow> json option" where
  "jsget (JObj kvs) k = map_of kvs k"
| "jsget v k = None"

text \<open>
  What \<^verbatim>\<open>await fetch(url, {signal})\<close> followed by \<^verbatim>\<open>res.json()\<close> can produce: the fetch
  rejects (the abort on timeout, or a transport error) with an error message, or a response
  arrives with its \<^verbatim>\<open>ok\<close> flag, status, status text and a body that is either not JSON (the
  message of the syntax error) or a parsed value.
\<close>

datatype fetch_outcome =
    Rejected jsstring
  | Response bool nat jsstring "jsstring + json"

section \<open>translateToEnglish\<close>

definition toTranslate :: "jsstring \<Rightarrow> jsstring" where
  "toTranslate trimmed =
     (if js_length trimmed > MAX_CHARS_PER_REQUEST
      then slice0 MAX_CHARS_PER_REQUEST trimmed else trimmed)"

text \<open>
  The body of the \<^verbatim>\<open>try\<close> block after a response has arrived; \<open>None\<close> is every path that
  returns \<^verbatim>\<open>trimmed\<close>, the \<^verbatim>\<open>catch\<close> included (a \<^verbatim>\<open>null\<close> body, or a \<^verbatim>\<open>translatedText\<close>
  that is not a string and so has no \<^verbatim>\<open>trim\<close> method, raise a TypeError inside the block).
\<close>

definition readTranslation :: "fetch_outcome \<Rightarrow> jsstring option" where
  "readTranslation out =
     (case out of
        Rejected m \<Rightarrow> None
      | Response ok status statusText body \<Rightarrow>
          if \<not> ok then None
          else (case body of
            Inl m \<Rightarrow> None
          | Inr data \<Rightarrow>
              if data = JNull then None
              else if (case jsget data (str ''quotaFinished'') of
                         None \<Rightarrow> False | Some q \<Rightarrow> truthy q) then None
              else (case jsget data (str ''response'') of
                  None \<Rightarrow> None
                | Some JNull \<Rightarrow> None
                | Some r \<Rightarrow>
                    (case jsget r (str ''translatedText'') of
                       None \<Rightarrow> None
                     | Some JNull \<Rightarrow> None
                     | Some (JStr s) \<Rightarrow>
                         (let translated = trim s in
                          if translated \<noteq> [] then Some translated else None)
                     | Some other \<Rightarrow> None))))"

text \<open>
  \<^verbatim>\<open>translateToEnglish\<close>. The provider is a function from the \<^verbatim>\<open>q\<close> parameter of the request
  to the outcome of the fetch. The result is paired with the list of requests issued.
\<close>

definition translateToEnglish ::
  "(jsstring \<Rightarrow> fetch_outcome) \<Rightarrow> jsstring \<Rightarrow> jsstring \<times> jsstring list" where
  "translateToEnglish net text =
     (let trimmed = trim text in
      if trimmed = [] \<or> isLikelyEnglish trimmed then (trimmed, [])
      else
        let q = toTranslate trimmed in
        (case readTranslation (net q) of
           Some translated \<Rightarrow> (translated, [q])
         | None \<Rightarrow> (trimmed, [q])))"

section \<open>ensureJobEnglish, ensureJobsEnglish\<close>

text \<open>
  \<^verbatim>\<open>JobTextFields\<close>; the record's extension slot is the rest of the generic \<^verbatim>\<open>T\<close>.
  \<open>None\<close> is \<^verbatim>\<open>null\<close> or \<^verbatim>\<open>undefined\<close>.
\<close>

record JobTextFields =
  title :: jsstring
  company :: jsstring
  location :: "jsstring option"
  description :: "jsstring option"

datatype field = Title | Company | Location | Description

text \<open>The four calls of one job each get their own provider outcome.\<close>

definition ensureJobEnglish ::
  "(field \<Rightarrow> jsstring \<Rightarrow> fetch_outcome) \<Rightarrow> 'a JobTextFields_scheme \<Rightarrow> 'a JobTextFields_scheme" where
  "ensureJobEnglish net job =
     (let title' = fst (translateToEnglish (net Title) (title job));
          company' = fst (translateToEnglish (net Company) (company job));
          location' =
            (case location job of
               None \<Rightarrow> []
             | Some l \<Rightarrow> if l \<noteq> [] then fst (translateToEnglish (net Location) l) else l);
          description' =
            (case description job of
               None \<Rightarrow> None
             | Some d \<Rightarrow>
                 if d \<noteq> [] \<and> trim d \<noteq> []
                 then Some (fst (translateToEnglish (net Description)
                                  (slice0 MAX_CHARS_PER_REQUEST d)))
                 else Some d)
      in job\<lparr>title := title', company := company',
              location := Some location', description := description'\<rparr>)"

definition CONCURRENCY :: nat where
  "CONCURRENCY = 3"

text \<open>
  The batching loop of \<^verbatim>\<open>ensureJobsEnglish\<close>: \<open>i\<close> is the loop counter, \<open>out\<close> the output
  array. The provider is indexed by the position of the job in \<open>jobs\<close>.
\<close>

function ensureJobsEnglish_loop ::
  "(nat \<Rightarrow> field \<Rightarrow> jsstring \<Rightarrow> fetch_outcome) \<Rightarrow> 'a JobTextFields_scheme list \<Rightarrow> nat \<Rightarrow>
   'a JobTextFields_scheme list \<Rightarrow> 'a JobTextFields_scheme list" where
  "ensureJobsEnglish_loop net jobs i out =
     (if i < length jobs then
        let batch = take CONCURRENCY (drop i jobs);
            translated = map (\<lambda>(k, j). ensureJobEnglish (net k) j) (enumerate i batch)
        in ensureJobsEnglish_loop net jobs (i + CONCURRENCY) (out @ translated)
      else out)"
  by pat_completeness auto
termination
  by (relation "measure (\<lambda>(net, jobs, i, out). length jobs - i)") (auto simp: CONCURRENCY_def)

declare ensureJobsEnglish_loop.simps [simp del]

definition ensureJobsEnglish ::
  "(nat \<Rightarrow> field \<Rightarrow> jsstring \<Rightarrow> fetch_outcome) \<Rightarrow> 'a JobTextFields_scheme list \<Rightarrow>
   'a JobTextFields_scheme list" where
  "ensureJobsEnglish net jobs = ensureJobsEnglish_loop net jobs 0 []"

section \<open>Storage\<close>

text \<open>
  A row of the \<^verbatim>\<open>jobs\<close> table, with the columns the handlers read and write. The other
  columns (\<^verbatim>\<open>category\<close>, \<^verbatim>\<open>publication_date\<close>, \<^verbatim>\<open>experience_level\<close>, the timestamps) are written
  by no handler modelled here and keep their defaults. The handlers guard every text
  column they read against \<^verbatim>\<open>null\<close>, so the columns are optional here; \<^verbatim>\<open>id\<close> is the primary
  key and \<^verbatim>\<open>apply_url\<close> carries the unique index.
\<close>

record job_row =
  db_id :: nat
  db_title :: "jsstring option"
  db_company :: "jsstring option"
  db_location :: "jsstring option"
  db_description :: "jsstring option"
  db_apply_url :: jsstring

text \<open>The row object the ingestion handlers pass to \<^verbatim>\<open>upsert\<close>.\<close>

record new_row =
  n_title :: jsstring
  n_company :: jsstring
  n_location :: jsstring
  n_description :: "jsstring option"
  n_apply_url :: jsstring

definition fresh_id :: "job_row list \<Rightarrow> nat" where
  "fresh_id tbl = Suc (fold max (map db_id tbl) 0)"

text \<open>
  Modelled from the spec: the storage service is an external collaborator and its code is
  not part of the repository. The spec requires of it an upsert with a conflict target that
  skips, and does not overwrite, rows that already exist. \<open>insert_if_absent\<close> handles one
  row of the batch: a row whose \<^verbatim>\<open>apply_url\<close> is already stored is skipped, any other row is
  appended under a fresh identifier. The batch is handled row by row, and the ids of the
  rows actually inserted are returned, as \<^verbatim>\<open>.select("id")\<close> asks.
\<close>

definition insert_if_absent :: "job_row list \<times> nat list \<Rightarrow> new_row \<Rightarrow> job_row list \<times> nat list" where
  "insert_if_absent st r =
     (let (tbl, ids) = st in
      if n_apply_url r \<in> set (map db_apply_url tbl) then (tbl, ids)
      else (tbl @ [\<lparr>db_id = fresh_id tbl, db_title = Some (n_title r),
                       db_company = Some (n_company r), db_location = Some (n_location r),
                       db_description = n_description r, db_apply_url = n_apply_url r\<rparr>],
            ids @ [fresh_id tbl]))"

text \<open>
  Modelled from the spec: \<^verbatim>\<open>upsert(rows, {onConflict: "apply_url", ignoreDuplicates: true})\<close>
  followed by \<^verbatim>\<open>.select("id")\<close>. \<open>fail\<close> is the error the storage service reports for this
  statement, if any; a failed statement changes nothing.
\<close>

definition upsert_ignore ::
  "jsstring option \<Rightarrow> job_row list \<Rightarrow> new_row list \<Rightarrow> job_row list \<times> (jsstring + nat list)" where
  "upsert_ignore fail tbl rows =
     (case fail of
        Some m \<Rightarrow> (tbl, Inl m)
      | None \<Rightarrow> (let (tbl', ids) = fold (\<lambda>r st. insert_if_absent st r) rows (tbl, [])
                 in (tbl', Inr ids)))"

text \<open>
  Modelled from the spec: row update by identifier,
  \<^verbatim>\<open>update({title, company, location, description}).eq("id", id)\<close>.
\<close>

definition set_columns ::
  "job_row \<Rightarrow> jsstring \<Rightarrow> jsstring \<Rightarrow> jsstring \<Rightarrow> jsstring option \<Rightarrow> job_row" where
  "set_columns r t c l d =
     r\<lparr>db_title := Some t, db_company := Some c, db_location := Some l, db_description := d\<rparr>"

definition update_by_id ::
  "job_row list \<Rightarrow> nat \<Rightarrow> jsstring \<Rightarrow> jsstring \<Rightarrow> jsstring \<Rightarrow> jsstring option \<Rightarrow> job_row list" where
  "update_by_id tbl i t c l d = map (\<lambda>r. if db_id r = i then set_columns r t c l d else r) tbl"

text \<open>The apply URLs stored in a table.\<close>

abbreviation urls :: "job_row list \<Rightarrow> jsstring set" where
  "urls tbl \<equiv> set (map db_apply_url tbl)"

section \<open>Translation backfill (POST /api/translate-jobs)\<close>

datatype translate_response =
    TranslateError jsstring
  | NoJobs
  | Translated nat nat

text \<open>The object built from a selected row before translation.\<close>

definition text_fields :: "job_row \<Rightarrow> JobTextFields" where
  "text_fields j =
     \<lparr>title = (case db_title j of None \<Rightarrow> [] | Some s \<Rightarrow> s),
      company = (case db_company j of None \<Rightarrow> [] | Some s \<Rightarrow> s),
      location = db_location j,
      description = db_description j\<rparr>"

definition changed :: "job_row \<Rightarrow> JobTextFields \<Rightarrow> bool" where
  "changed orig t \<longleftrightarrow>
     title t \<noteq> (case db_title orig of None \<Rightarrow> [] | Some s \<Rightarrow> s) \<or>
     company t \<noteq> (case db_company orig of None \<Rightarrow> [] | Some s \<Rightarrow> s) \<or>
     location t \<noteq> db_location orig \<or>
     description t \<noteq> db_description orig"

text \<open>The values written for a changed row.\<close>

definition new_location :: "job_row \<Rightarrow> JobTextFields \<Rightarrow> jsstring" where
  "new_location orig t =
     (case location t of Some l \<Rightarrow> l
      | None \<Rightarrow> (case db_location orig of Some l \<Rightarrow> l | None \<Rightarrow> []))"

definition new_description :: "job_row \<Rightarrow> JobTextFields \<Rightarrow> jsstring option" where
  "new_description orig t =
     (case description t of Some d \<Rightarrow> Some d | None \<Rightarrow> db_description orig)"

text \<open>
  The update loop. \<open>upd_ok i\<close> tells whether the storage service accepts the update issued
  in iteration \<open>i\<close>; \<open>tbl\<close> is the stored table, \<open>updated\<close> the counter.
\<close>

function translate_loop ::
  "(nat \<Rightarrow> bool) \<Rightarrow> job_row list \<Rightarrow> JobTextFields list \<Rightarrow> nat \<Rightarrow> job_row list \<Rightarrow> nat \<Rightarrow>
   job_row list \<times> nat" where
  "translate_loop upd_ok jobs translated i tbl updated =
     (if i < length jobs then
        let orig = jobs ! i; t = translated ! i in
        if \<not> changed orig t then translate_loop upd_ok jobs translated (i + 1) tbl updated
        else
          let tbl' = update_by_id tbl (db_id orig) (title t) (company t)
                       (new_location orig t) (new_description orig t)
          in if upd_ok i then translate_loop upd_ok jobs translated (i + 1) tbl' (updated + 1)
             else translate_loop upd_ok jobs translated (i + 1) tbl updated
      else (tbl, updated))"
  by pat_completeness auto
termination
  by (relation "measure (\<lambda>(upd_ok, jobs, translated, i, tbl, updated). length jobs - i)") auto

declare translate_loop.simps [simp del]

text \<open>
  The handler. \<open>cfg\<close> is the error thrown by \<^verbatim>\<open>getSupabaseServer\<close> when the environment is
  not configured, \<open>sel\<close> the error of the initial select; both end the request with status
  500. The select returns the stored rows.
\<close>

definition POST_translate_jobs ::
  "jsstring option \<Rightarrow> jsstring option \<Rightarrow> (nat \<Rightarrow> bool) \<Rightarrow>
   (nat \<Rightarrow> field \<Rightarrow> jsstring \<Rightarrow> fetch_outcome) \<Rightarrow> job_row list \<Rightarrow>
   job_row list \<times> translate_response" where
  "POST_translate_jobs cfg sel upd_ok net tbl =
     (case cfg of
        Some m \<Rightarrow> (tbl, TranslateError m)
      | None \<Rightarrow>
     (case sel of
        Some m \<Rightarrow> (tbl, TranslateError m)
      | None \<Rightarrow>
          let jobs = tbl in
          if jobs = [] then (tbl, NoJobs)
          else
            let translated = ensureJobsEnglish net (map text_fields jobs);
                (tbl', updated) = translate_loop upd_ok jobs translated 0 tbl 0
            in (tbl', Translated (length jobs) updated)))"

section \<open>Query layer (lib/jobs.ts)\<close>

text \<open>
  \<^verbatim>\<open>JobFilters\<close>, every field optional. The fields carry the prefix \<open>f_\<close> because \<open>location\<close>
  is already a field of \<^verbatim>\<open>JobTextFields\<close>. \<^verbatim>\<open>page\<close> and \<^verbatim>\<open>limit\<close> are JavaScript numbers;
  the model covers the integral ones (a fractional value gives a fractional row range).
\<close>

record JobFilters =
  f_search :: "jsstring option"
  f_location :: "jsstring option"
  f_category :: "jsstring option"
  f_experience :: "jsstring option"
  f_remote :: bool
  f_sort :: "jsstring option"
  f_page :: "int option"
  f_limit :: "int option"

definition DEFAULT_LIMIT :: int where
  "DEFAULT_LIMIT = 12"

definition PG_UNDEFINED_COLUMN :: jsstring where
  "PG_UNDEFINED_COLUMN = str ''42703''"

text \<open>
  The query handed to the storage client: the \<^verbatim>\<open>ilike\<close> terms that were added (\<open>None\<close> when
  the filter was not applied), the sort direction and the requested row range.
\<close>

record jobs_query =
  q_ascending :: bool
  q_search :: "jsstring option"
  q_location :: "jsstring option"
  q_category :: "jsstring option"
  q_experience :: "jsstring option"
  q_remote :: bool
  q_from :: int
  q_to :: int

record built_query =
  b_query :: jobs_query
  b_limit :: int
  b_page :: int

text \<open>\<^verbatim>\<open>filters.x?.trim()\<close> used as a condition, with the trimmed term when it is truthy.\<close>

definition term_of :: "jsstring option \<Rightarrow> jsstring option" where
  "term_of x = (case x of None \<Rightarrow> None | Some s \<Rightarrow> if trim s \<noteq> [] then Some (trim s) else None)"

text \<open>\<^verbatim>\<open>Number(x) || d\<close> on an optional integral number.\<close>

definition number_or :: "int option \<Rightarrow> int \<Rightarrow> int" where
  "number_or x d = (case x of None \<Rightarrow> d | Some n \<Rightarrow> if n = 0 then d else n)"

definition buildJobsQuery :: "JobFilters \<Rightarrow> bool \<Rightarrow> built_query" where
  "buildJobsQuery filters skip =
     (let limit = min (number_or (f_limit filters) DEFAULT_LIMIT) 50;
          page = max 0 (number_or (f_page filters) 0);
          from = page * limit;
          to = from + limit - 1;
          sortAsc = (f_sort filters = Some (str ''oldest''))
      in \<lparr>b_query =
            \<lparr>q_ascending = sortAsc,
             q_search = term_of (f_search filters),
             q_location = term_of (f_location filters),
             q_category = (if \<not> skip then term_of (f_category filters) else None),
             q_experience = (if \<not> skip then term_of (f_experience filters) else None),
             q_remote = f_remote filters,
             q_from = from, q_to = to\<rparr>,
          b_limit = limit, b_page = page\<rparr>)"

text \<open>The answer of the storage client to \<^verbatim>\<open>query.range(from, to)\<close>.\<close>

record pg_error =
  e_code :: "jsstring option"
  e_message :: "jsstring option"

record 'r query_answer =
  a_data :: "'r list option"
  a_count :: "nat option"
  a_error :: "pg_error option"

record 'r GetJobsResult =
  r_jobs :: "'r list"
  r_total :: nat
  r_page :: int
  r_totalPages :: int
  r_limit :: int

definition isUndefinedColumn :: "pg_error \<Rightarrow> bool" where
  "isUndefinedColumn e \<longleftrightarrow>
     e_code e = Some PG_UNDEFINED_COLUMN \<or>
     sublist (str ''42703'') (case e_message e of None \<Rightarrow> [] | Some m \<Rightarrow> m)"

text \<open>
  \<^verbatim>\<open>Math.ceil(total / limit) || 1\<close>, where \<^verbatim>\<open>total\<close> is \<^verbatim>\<open>count ?? 0\<close>. The limit is never zero, and for counts and limits
  below \<open>2^53\<close> the rounded quotient has the ceiling of the exact one.
\<close>

definition totalPages_of :: "nat \<Rightarrow> int \<Rightarrow> int" where
  "totalPages_of count limit =
     (let c = \<lceil>(of_nat count :: rat) / of_int limit\<rceil> in if c = 0 then 1 else c)"

text \<open>
  \<^verbatim>\<open>getJobs\<close>. \<open>db n q\<close> is the answer of the storage service to query \<open>q\<close> when \<open>n\<close> queries
  were issued before it in this call. The result is the thrown error or the returned
  object, paired with the queries issued.
\<close>

definition getJobs ::
  "(nat \<Rightarrow> jobs_query \<Rightarrow> 'r query_answer) \<Rightarrow> JobFilters \<Rightarrow>
   (pg_error + 'r GetJobsResult) \<times> jobs_query list" where
  "getJobs db filters =
     (let b = buildJobsQuery filters False;
          a = db 0 (b_query b);
          finish = (\<lambda>data count page.
             \<lparr>r_jobs = (case data of None \<Rightarrow> [] | Some rows \<Rightarrow> rows),
              r_total = (case count of None \<Rightarrow> 0 | Some n \<Rightarrow> n),
              r_page = page,
              r_totalPages = totalPages_of (case count of None \<Rightarrow> 0 | Some n \<Rightarrow> n) (b_limit b),
              r_limit = b_limit b\<rparr>)
      in case a_error a of
           None \<Rightarrow> (Inr (finish (a_data a) (a_count a) (b_page b)), [b_query b])
         | Some e \<Rightarrow>
             if isUndefinedColumn e then
               let fallback = buildJobsQuery filters True;
                   result = db 1 (b_query fallback)
               in (case a_error result of
                     Some e2 \<Rightarrow> (Inl e2, [b_query b, b_query fallback])
                   | None \<Rightarrow> (Inr (finish (a_data result) (a_count result) (b_page fallback)),
                              [b_query b, b_query fallback]))
             else (Inl e, [b_query b]))"

section \<open>Source adapters (lib/job-sources.ts)\<close>

fun join_comma :: "jsstring list \<Rightarrow> jsstring" where
  "join_comma [] = []"
| "join_comma [s] = s"
| "join_comma (s # t # ss) = s @ str '','' @ join_comma (t # ss)"

text \<open>
  \<^verbatim>\<open>String(v)\<close> on a parsed value, \<open>None\<close> when the conversion throws a TypeError. An
  object is rendered by the inherited \<^verbatim>\<open>toString\<close>; an object with an own \<^verbatim>\<open>toString\<close> key
  (whose parsed value is never callable) cannot be converted. An array is the comma-joined
  text of its elements, with \<^verbatim>\<open>null\<close> elements rendered empty, and cannot be converted when
  one of its elements cannot.
\<close>

fun js_String :: "json \<Rightarrow> jsstring option" where
  "js_String JNull = Some (str ''null'')"
| "js_String (JBool b) = Some (if b then str ''true'' else str ''false'')"
| "js_String (JNum n) = Some n"
| "js_String (JStr s) = Some s"
| "js_String (JArr xs) =
     map_option join_comma (those (map (\<lambda>x. if x = JNull then Some [] else js_String x) xs))"
| "js_String (JObj kvs) =
     (if str ''toString'' \<in> set (map fst kvs) then None else Some (str ''[object Object]''))"

text \<open>The message of the TypeError of a failed conversion.\<close>

definition conversion_error :: jsstring where
  "conversion_error = str ''Cannot convert object to primitive value''"

text \<open>\<^verbatim>\<open>a ?? b\<close> for two property reads.\<close>

definition coalesce :: "json option \<Rightarrow> json option \<Rightarrow> json option" where
  "coalesce a b = (case a of None \<Rightarrow> b | Some JNull \<Rightarrow> b | Some x \<Rightarrow> Some x)"

text \<open>\<^verbatim>\<open>String(v ?? d)\<close> for a property read \<open>v\<close>; \<open>None\<close> when the conversion throws.\<close>

definition string_or :: "json option \<Rightarrow> jsstring \<Rightarrow> jsstring option" where
  "string_or v d = (case v of None \<Rightarrow> Some d | Some JNull \<Rightarrow> Some d | Some x \<Rightarrow> js_String x)"

text \<open>\<^verbatim>\<open>v != null ? String(v) : null\<close>; the outer \<open>None\<close> is the throw, \<open>Some None\<close> is
  \<^verbatim>\<open>null\<close>.\<close>

definition string_opt :: "json option \<Rightarrow> jsstring option option" where
  "string_opt v =
     (case v of None \<Rightarrow> Some None | Some JNull \<Rightarrow> Some None
      | Some x \<Rightarrow> map_option Some (js_String x))"

text \<open>\<^verbatim>\<open>Array.isArray(v) && v[0] != null ? String(v[0]) : null\<close>.\<close>

definition first_string :: "json option \<Rightarrow> jsstring option option" where
  "first_string v =
     (case v of
        Some (JArr (x # xs)) \<Rightarrow> if x = JNull then Some None else map_option Some (js_String x)
      | _ \<Rightarrow> Some None)"

text \<open>
  \<^verbatim>\<open>isObject(j) && hasKeys(j, keys)\<close>. An array passes \<^verbatim>\<open>isObject\<close> but has none of the keys
  asked for here.
\<close>

definition hasKeys :: "json \<Rightarrow> jsstring list \<Rightarrow> bool" where
  "hasKeys j keys =
     (case j of JObj kvs \<Rightarrow> list_all (\<lambda>k. k \<in> set (map fst kvs)) keys | _ \<Rightarrow> False)"

record NormalizedJob = JobTextFields +
  category :: "jsstring option"
  publication_date :: "jsstring option"
  apply_url :: jsstring
  experience_level :: "jsstring option"

fun decimal :: "nat \<Rightarrow> jsstring" where
  "decimal n = (if n < 10 then [48 + n] else decimal (n div 10) @ [48 + n mod 10])"

declare decimal.simps [simp del]

text \<open>\<^verbatim>\<open>fetchJson\<close>: the thrown error's message, or the parsed body.\<close>

definition fetchJson :: "fetch_outcome \<Rightarrow> jsstring + json" where
  "fetchJson out =
     (case out of
        Rejected m \<Rightarrow> Inl m
      | Response ok status statusText body \<Rightarrow>
          if \<not> ok then Inl (decimal status @ str '' '' @ statusText)
          else (case body of Inl m \<Rightarrow> Inl m | Inr v \<Rightarrow> Inr v))"

text \<open>\<^verbatim>\<open>Array.isArray(data?.k) ? data.k : []\<close>.\<close>

definition array_at :: "json \<Rightarrow> jsstring \<Rightarrow> json list" where
  "array_at data k = (case jsget data k of Some (JArr xs) \<Rightarrow> xs | _ \<Rightarrow> [])"

text \<open>
  The callback of \<^verbatim>\<open>.map\<close> in \<^verbatim>\<open>fetchRemotive\<close>, its fields evaluated in the order of the
  object literal; \<open>None\<close> when a conversion throws.
\<close>

definition remotive_job :: "json \<Rightarrow> NormalizedJob option" where
  "remotive_job j = do {
     t \<leftarrow> string_or (jsget j (str ''title'')) [];
     c \<leftarrow> string_or (jsget j (str ''company_name'')) [];
     l \<leftarrow> string_or (jsget j (str ''candidate_required_location'')) (str ''Remote'');
     cat \<leftarrow> string_opt (jsget j (str ''category''));
     d \<leftarrow> string_opt (jsget j (str ''description''));
     p \<leftarrow> string_opt (jsget j (str ''publication_date''));
     u \<leftarrow> string_or (jsget j (str ''url'')) [];
     e \<leftarrow> string_opt (jsget j (str ''job_type''));
     Some \<lparr>title = t, company = c, location = Some l, description = d, category = cat,
           publication_date = p, apply_url = u, experience_level = e\<rparr>
   }"

text \<open>
  \<^verbatim>\<open>fetchRemotive\<close>. \<^verbatim>\<open>.map\<close> stops at the first callback that throws, and the adapter then
  rejects with that error.
\<close>

definition fetchRemotive :: "fetch_outcome \<Rightarrow> jsstring + NormalizedJob list" where
  "fetchRemotive out =
     (case fetchJson out of
        Inl m \<Rightarrow> Inl m
      | Inr data \<Rightarrow>
          (case those (map remotive_job
                  (filter (\<lambda>j. hasKeys j [str ''url'', str ''title'', str ''company_name''])
                     (array_at data (str ''jobs'')))) of
             None \<Rightarrow> Inl conversion_error
           | Some jobs \<Rightarrow> Inr jobs))"

definition remoteok_job :: "json \<Rightarrow> NormalizedJob option" where
  "remoteok_job j = do {
     t \<leftarrow> string_or (jsget j (str ''position'')) [];
     c \<leftarrow> string_or (jsget j (str ''company'')) [];
     l \<leftarrow> string_or (jsget j (str ''location'')) (str ''Remote'');
     cat \<leftarrow> first_string (jsget j (str ''tags''));
     d \<leftarrow> string_opt (jsget j (str ''description''));
     p \<leftarrow> string_opt (jsget j (str ''date''));
     u \<leftarrow> string_or (coalesce (jsget j (str ''apply_url'')) (jsget j (str ''url''))) [];
     Some \<lparr>title = t, company = c, location = Some l, description = d, category = cat,
           publication_date = p, apply_url = u, experience_level = None\<rparr>
   }"

definition fetchRemoteOk :: "fetch_outcome \<Rightarrow> jsstring + NormalizedJob list" where
  "fetchRemoteOk out =
     (case fetchJson out of
        Inl m \<Rightarrow> Inl m
      | Inr data \<Rightarrow>
          (case data of
             JArr items \<Rightarrow>
               (case those (map remoteok_job
                       (filter (\<lambda>item. hasKeys item [str ''position'', str ''apply_url''])
                          items)) of
                  None \<Rightarrow> Inl conversion_error
                | Some jobs \<Rightarrow> Inr jobs)
           | _ \<Rightarrow> Inr []))"

text \<open>
  One record of the ArbeitNow mapping, \<open>None\<close> when it throws. \<open>toISO n\<close> is
  \<^verbatim>\<open>new Date(n * 1000).toISOString()\<close> for the number rendered as \<open>n\<close>, \<open>None\<close> when the date
  is out of range and the call throws a RangeError.
\<close>

definition arbeitnow_job :: "(jsstring \<Rightarrow> jsstring option) \<Rightarrow> json \<Rightarrow> NormalizedJob option" where
  "arbeitnow_job toISO j = do {
     pubDate \<leftarrow> (case jsget j (str ''created_at'') of
                    Some (JNum n) \<Rightarrow> map_option Some (toISO n)
                  | v \<Rightarrow> string_opt v);
     expLevel \<leftarrow> first_string (jsget j (str ''job_types''));
     t \<leftarrow> string_or (jsget j (str ''title'')) [];
     c \<leftarrow> string_or (jsget j (str ''company_name'')) [];
     loc \<leftarrow> (case jsget j (str ''location'') of
                Some l \<Rightarrow> if truthy l then js_String l else Some (str ''Remote'')
              | None \<Rightarrow> Some (str ''Remote''));
     cat \<leftarrow> first_string (jsget j (str ''tags''));
     d \<leftarrow> string_opt (jsget j (str ''description''));
     u \<leftarrow> string_or (jsget j (str ''url'')) [];
     Some \<lparr>title = t, company = c, location = Some loc, description = d, category = cat,
           publication_date = pubDate, apply_url = u, experience_level = expLevel\<rparr>
   }"

text \<open>\<^verbatim>\<open>fetchArbeitNow\<close>: the whole body sits in \<^verbatim>\<open>try { ... } catch { return [] }\<close>, so a
  failed fetch and a record that throws both give the empty list.\<close>

definition fetchArbeitNow ::
  "(jsstring \<Rightarrow> jsstring option) \<Rightarrow> fetch_outcome \<Rightarrow> NormalizedJob list" where
  "fetchArbeitNow toISO out =
     (case fetchJson out of
        Inl m \<Rightarrow> []
      | Inr data \<Rightarrow>
          (case those (map (arbeitnow_job toISO)
                  (filter (\<lambda>j. hasKeys j [str ''url'', str ''title'', str ''company_name''])
                     (array_at data (str ''data'')))) of
             None \<Rightarrow> []
           | Some jobs \<Rightarrow> jobs))"

record FetchJobsResult =
  fr_source :: jsstring
  fr_count :: nat
  fr_jobs :: "NormalizedJob list"
  fr_error :: "jsstring option"

text \<open>The \<^verbatim>\<open>.then(...).catch(...)\<close> pair applied to each adapter.\<close>

definition settle :: "jsstring \<Rightarrow> jsstring + NormalizedJob list \<Rightarrow> FetchJobsResult" where
  "settle source r =
     (case r of
        Inr jobs \<Rightarrow> \<lparr>fr_source = source, fr_count = length jobs, fr_jobs = jobs, fr_error = None\<rparr>
      | Inl m \<Rightarrow> \<lparr>fr_source = source, fr_count = 0, fr_jobs = [], fr_error = Some m\<rparr>)"

definition fetchAllJobSources ::
  "(jsstring \<Rightarrow> jsstring option) \<Rightarrow> fetch_outcome \<Rightarrow> fetch_outcome \<Rightarrow> fetch_outcome \<Rightarrow>
   FetchJobsResult list" where
  "fetchAllJobSources toISO o_remotive o_remoteok o_arbeitnow =
     [settle (str ''remotive'') (fetchRemotive o_remotive),
      settle (str ''remoteok'') (fetchRemoteOk o_remoteok),
      settle (str ''arbeitnow'') (Inr (fetchArbeitNow toISO o_arbeitnow))]"

section \<open>Ingestion orchestrator (GET /api/fetch-jobs)\<close>

record summary_entry =
  s_source :: jsstring
  s_fetched :: nat
  s_inserted :: nat
  s_error :: "jsstring option"

text \<open>The storage row built from a translated record: \<^verbatim>\<open>location: j.location || "Remote"\<close>.\<close>

definition to_row :: "NormalizedJob \<Rightarrow> new_row" where
  "to_row j =
     \<lparr>n_title = title j, n_company = company j,
      n_location = (case location j of None \<Rightarrow> str ''Remote''
                    | Some l \<Rightarrow> if l \<noteq> [] then l else str ''Remote''),
      n_description = description j,
      n_apply_url = apply_url j\<rparr>"

text \<open>The two tests of the loop body: \<^verbatim>\<open>if (error)\<close> and \<^verbatim>\<open>j.apply_url?.trim()\<close>.\<close>

abbreviation source_failed :: "FetchJobsResult \<Rightarrow> bool" where
  "source_failed r \<equiv> (case fr_error r of None \<Rightarrow> False | Some e \<Rightarrow> e \<noteq> [])"

abbreviation with_url :: "NormalizedJob list \<Rightarrow> NormalizedJob list" where
  "with_url js \<equiv> filter (\<lambda>j. trim (apply_url j) \<noteq> []) js"

text \<open>
  The body of the loop over the adapter results, for one result: the table afterwards, the
  number added to \<^verbatim>\<open>totalInserted\<close>, and the entry pushed to \<^verbatim>\<open>summary\<close>. \<open>fail\<close> is the
  error of this source's upsert, if the storage service reports one.
\<close>

definition process_source ::
  "(nat \<Rightarrow> field \<Rightarrow> jsstring \<Rightarrow> fetch_outcome) \<Rightarrow> jsstring option \<Rightarrow> FetchJobsResult \<Rightarrow>
   job_row list \<Rightarrow> job_row list \<times> nat \<times> summary_entry" where
  "process_source net fail r tbl =
     (if source_failed r then
        (tbl, 0, \<lparr>s_source = fr_source r, s_fetched = 0, s_inserted = 0, s_error = fr_error r\<rparr>)
      else
        let filtered = with_url (fr_jobs r);
            translated = ensureJobsEnglish net filtered;
            rows = map to_row translated
        in if rows = [] then
             (tbl, 0, \<lparr>s_source = fr_source r, s_fetched = fr_count r, s_inserted = 0,
                       s_error = None\<rparr>)
           else
             (case upsert_ignore fail tbl rows of
                (tbl', Inl m) \<Rightarrow>
                  (tbl', 0, \<lparr>s_source = fr_source r, s_fetched = fr_count r, s_inserted = 0,
                            s_error = Some m\<rparr>)
              | (tbl', Inr ids) \<Rightarrow>
                  (tbl', length ids,
                   \<lparr>s_source = fr_source r, s_fetched = fr_count r, s_inserted = length ids,
                    s_error = None\<rparr>)))"

text \<open>The loop; \<open>k\<close> numbers the sources, for the provider and the storage service.\<close>

fun GET_loop ::
  "(nat \<Rightarrow> nat \<Rightarrow> field \<Rightarrow> jsstring \<Rightarrow> fetch_outcome) \<Rightarrow> (nat \<Rightarrow> jsstring option) \<Rightarrow> nat \<Rightarrow>
   FetchJobsResult list \<Rightarrow> job_row list \<Rightarrow> nat \<Rightarrow> summary_entry list \<Rightarrow>
   job_row list \<times> nat \<times> summary_entry list" where
  "GET_loop net fail k [] tbl totalInserted summary = (tbl, totalInserted, summary)"
| "GET_loop net fail k (r # rs) tbl totalInserted summary =
     (let (tbl', inserted, entry) = process_source (net k) (fail k) r tbl
      in GET_loop net fail (k + 1) rs tbl' (totalInserted + inserted) (summary @ [entry]))"

text \<open>
  The handler: the table afterwards and either the message of the 500 response or
  \<^verbatim>\<open>totalInserted\<close> and \<^verbatim>\<open>summary\<close> of the \<^verbatim>\<open>ok\<close> response. \<open>cfg\<close> is the error thrown by
  \<^verbatim>\<open>getSupabaseServer\<close>, if any.
\<close>

definition GET_fetch_jobs ::
  "jsstring option \<Rightarrow> (jsstring \<Rightarrow> jsstring option) \<Rightarrow> fetch_outcome \<Rightarrow> fetch_outcome \<Rightarrow>
   fetch_outcome \<Rightarrow> (nat \<Rightarrow> nat \<Rightarrow> field \<Rightarrow> jsstring \<Rightarrow> fetch_outcome) \<Rightarrow>
   (nat \<Rightarrow> jsstring option) \<Rightarrow> job_row list \<Rightarrow>
   job_row list \<times> (jsstring + nat \<times> summary_entry list)" where
  "GET_fetch_jobs cfg toISO o_remotive o_remoteok o_arbeitnow net fail tbl =
     (case cfg of
        Some m \<Rightarrow> (tbl, Inl m)
      | None \<Rightarrow>
          let results = fetchAllJobSources toISO o_remotive o_remoteok o_arbeitnow;
              (tbl', totalInserted, summary) = GET_loop net fail 0 results tbl 0 []
          in (tbl', Inr (totalInserted, summary)))"

section \<open>LinkedIn path (lib/scrapers/linkedinScraper.ts)\<close>

record LinkedInJob = JobTextFields +
  li_apply_url :: jsstring

text \<open>
  One element of the listing mapped by \<^verbatim>\<open>fetchLinkedInJobs\<close>. Reading a property of a \<^verbatim>\<open>null\<close>
  element throws a TypeError, and so does a failed conversion; the message is the error
  value.
\<close>

definition linkedin_job :: "json \<Rightarrow> jsstring + LinkedInJob" where
  "linkedin_job j =
     (if j = JNull then Inl (str ''Cannot read properties of null'')
      else
        (case do {
                t \<leftarrow> string_or (jsget j (str ''title'')) [];
                c \<leftarrow> string_or (jsget j (str ''company'')) [];
                l \<leftarrow> string_or (jsget j (str ''location'')) (str ''Worldwide'');
                d \<leftarrow> string_or (jsget j (str ''description'')) [];
                u \<leftarrow> string_or (coalesce (jsget j (str ''link''))
                                  (coalesce (jsget j (str ''job_url'')) (jsget j (str ''url'')))) [];
                Some \<lparr>title = t, company = c, location = Some l, description = Some d,
                      li_apply_url = u\<rparr>
              } of
           None \<Rightarrow> Inl conversion_error
         | Some job \<Rightarrow> Inr job))"

fun map_throwing :: "('a \<Rightarrow> 'e + 'b) \<Rightarrow> 'a list \<Rightarrow> 'e + 'b list" where
  "map_throwing f [] = Inr []"
| "map_throwing f (x # xs) =
     (case f x of
        Inl e \<Rightarrow> Inl e
      | Inr y \<Rightarrow> (case map_throwing f xs of Inl e \<Rightarrow> Inl e | Inr ys \<Rightarrow> Inr (y # ys)))"

text \<open>
  \<^verbatim>\<open>fetchLinkedInJobs\<close>. \<open>listing\<close> is what loading the scraping package and awaiting
  \<^verbatim>\<open>fetchJobListings\<close> gives: the message of a thrown error, or the value returned.
\<close>

definition fetchLinkedInJobs :: "jsstring + json \<Rightarrow> jsstring + LinkedInJob list" where
  "fetchLinkedInJobs listing =
     (case listing of
        Inl m \<Rightarrow> Inl m
      | Inr (JArr items) \<Rightarrow>
          (case map_throwing linkedin_job items of
             Inl m \<Rightarrow> Inl m
           | Inr jobs \<Rightarrow> Inr (filter (\<lambda>j. js_length (li_apply_url j) > 0) jobs))
      | Inr other \<Rightarrow> Inr [])"

definition linkedin_row :: "LinkedInJob \<Rightarrow> new_row" where
  "linkedin_row j =
     \<lparr>n_title = title j, n_company = company j,
      n_location = (case location j of None \<Rightarrow> str ''Worldwide'' | Some l \<Rightarrow> l),
      n_description = Some (case description j of None \<Rightarrow> [] | Some d \<Rightarrow> d),
      n_apply_url = li_apply_url j\<rparr>"

text \<open>\<^verbatim>\<open>scrapeAndInsertLinkedInJobs\<close>: the table afterwards and the thrown error or
  \<^verbatim>\<open>{fetched, inserted}\<close>.\<close>

definition scrapeAndInsertLinkedInJobs ::
  "jsstring + json \<Rightarrow> (nat \<Rightarrow> field \<Rightarrow> jsstring \<Rightarrow> fetch_outcome) \<Rightarrow> jsstring option \<Rightarrow>
   job_row list \<Rightarrow> job_row list \<times> (jsstring + nat \<times> nat)" where
  "scrapeAndInsertLinkedInJobs listing net fail tbl =
     (case fetchLinkedInJobs listing of
        Inl m \<Rightarrow> (tbl, Inl m)
      | Inr jobs \<Rightarrow>
          if jobs = [] then (tbl, Inr (0, 0))
          else
            let translated = ensureJobsEnglish net jobs;
                rows = map linkedin_row translated
            in (case upsert_ignore fail tbl rows of
                  (tbl', Inl m) \<Rightarrow> (tbl', Inl m)
                | (tbl', Inr ids) \<Rightarrow> (tbl', Inr (length jobs, length ids))))"

section \<open>Facts about strings\<close>

lemma trim_decomp:
  "\<exists>a w. t = a @ trim t @ w \<and> (\<forall>c\<in>set a. is_ws c) \<and> (\<forall>c\<in>set w. is_ws c)"
proof -
  let ?u = "dropWhile is_ws t"
  have 1: "t = takeWhile is_ws t @ ?u" by simp
  have "rev (dropWhile is_ws (rev ?u)) @ rev (takeWhile is_ws (rev ?u)) = ?u"
    by (metis rev_append rev_rev_ident takeWhile_dropWhile_id)
  then have 2: "?u = trim t @ rev (takeWhile is_ws (rev ?u))" by (simp only: trim_def)
  have 3: "\<forall>c\<in>set (takeWhile is_ws t). is_ws c" by (auto dest: set_takeWhileD)
  have 4: "\<forall>c\<in>set (rev (takeWhile is_ws (rev ?u))). is_ws c" by (auto dest: set_takeWhileD)
  from 1 2 have "t = takeWhile is_ws t @ trim t @ rev (takeWhile is_ws (rev ?u))" by simp
  with 3 4 show ?thesis by blast
qed

lemma js_length_append: "js_length (a @ b) = js_length a + js_length b"
  by (simp add: js_length_def)

lemma js_length_trim: "js_length (trim t) \<le> js_length t"
proof -
  obtain a w where "t = a @ trim t @ w" using trim_decomp by blast
  then have "js_length t = js_length a + js_length (trim t) + js_length w"
    by (metis js_length_append add.assoc)
  then show ?thesis by simp
qed

lemma set_trim: "c \<in> set t \<Longrightarrow> \<not> is_ws c \<Longrightarrow> c \<in> set (trim t)"
proof -
  assume c: "c \<in> set t" and n: "\<not> is_ws c"
  obtain a w where t: "t = a @ trim t @ w"
    and a: "\<forall>c\<in>set a. is_ws c" and w: "\<forall>c\<in>set w. is_ws c"
    using trim_decomp by blast
  from c t have "c \<in> set a \<union> set (trim t) \<union> set w" by (metis set_append Un_assoc)
  with a w n show ?thesis by blast
qed

lemma set_trim_subset: "set (trim t) \<subseteq> set t"
  using trim_decomp[of t] by (metis Un_upper1 Un_upper2 set_append subset_trans)

lemma trim_idem: "trim (trim t) = trim t"
proof -
  let ?u = "dropWhile is_ws t"
  let ?v = "rev (dropWhile is_ws (rev ?u))"
  have v: "trim t = ?v" by (simp add: trim_def)
  have dv: "dropWhile is_ws ?v = ?v"
  proof (cases "?v = []")
    case True then show ?thesis by (simp only: dropWhile.simps)
  next
    case False
    have "rev (dropWhile is_ws (rev ?u)) @ rev (takeWhile is_ws (rev ?u)) = ?u"
      by (metis rev_append rev_rev_ident takeWhile_dropWhile_id)
    then obtain w where u: "?u = ?v @ w" by metis
    with False have "hd ?v = hd ?u" by (metis hd_append2)
    moreover from u False have "?u \<noteq> []" by (metis append_is_Nil_conv)
    then have "\<not> is_ws (hd ?u)" by (rule hd_dropWhile)
    ultimately have "\<not> is_ws (hd ?v)" by simp
    with False show ?thesis by (simp add: dropWhile_eq_self_iff)
  qed
  have "trim ?v = rev (dropWhile is_ws (rev (dropWhile is_ws ?v)))" by (simp add: trim_def)
  also have "\<dots> = rev (dropWhile is_ws (rev ?v))" by (simp only: dv)
  also have "\<dots> = ?v" by simp
  finally show ?thesis by (simp only: v)
qed

lemma trim_Nil: "trim [] = []"
  by (simp add: trim_def)

section \<open>isLikelyEnglish\<close>

lemma hasNonLatinScript_iff: "hasNonLatinScript t \<longleftrightarrow> (\<exists>c\<in>set t. non_latin c)"
  proof (induction t)
  case Nil show ?case by simp
next
  case (Cons a t)
  have "hasNonLatinScript (a # t) \<longleftrightarrow> non_latin a \<or> hasNonLatinScript t"
    by (simp only: hasNonLatinScript.simps) argo
  with Cons show ?case by (simp only: list.set ball_simps bex_simps)
qed

lemma non_latin_not_ws: "non_latin c \<Longrightarrow> \<not> is_ws c"
  unfolding is_ws_def by linarith

lemma diacritic_not_ws: "diacritic c \<Longrightarrow> \<not> is_ws c"
  unfolding is_ws_def diacritic_def by linarith


lemma hasNonLatinScript_trim: "hasNonLatinScript (trim t) \<longleftrightarrow> (\<exists>c\<in>set t. non_latin c)"
proof
  assume "hasNonLatinScript (trim t)"
  then obtain c where "c \<in> set (trim t)" "non_latin c" unfolding hasNonLatinScript_iff by blast
  then show "\<exists>c\<in>set t. non_latin c" using set_trim_subset by blast
next
  assume "\<exists>c\<in>set t. non_latin c"
  then obtain c where c: "c \<in> set t" "non_latin c" by blast
  then have "c \<in> set (trim t)" using set_trim non_latin_not_ws by blast
  with c show "hasNonLatinScript (trim t)" unfolding hasNonLatinScript_iff by blast
qed

lemma diacritic_trim: "list_ex diacritic (trim t) \<longleftrightarrow> (\<exists>c\<in>set t. diacritic c)"
  unfolding list_ex_iff
  using set_trim diacritic_not_ws set_trim_subset by blast

lemma ratio_nat: "((of_nat a :: rat) > of_nat b * (15 / 100)) \<longleftrightarrow> 100 * a > 15 * b"
proof -
  have "((of_nat a :: rat) > of_nat b * (15 / 100)) \<longleftrightarrow> (of_nat (15 * b) :: rat) < of_nat (100 * a)"
    by (simp add: field_simps)
  also have "\<dots> \<longleftrightarrow> 15 * b < 100 * a" by (simp only: of_nat_less_iff)
  finally show ?thesis .
qed

lemma isLikelyEnglish_unfold:
  "\<not> js_length text < 2 \<Longrightarrow> isLikelyEnglish text \<longleftrightarrow>
     \<not> hasNonLatinScript (trim text) \<and>
     \<not> (of_nat (length (filter (\<lambda>c. 127 < c) (trim text))) :: rat) > of_nat (js_length (trim text)) * (15 / 100) \<and>
     \<not> list_ex diacritic (trim text)"
proof -
  assume a: "\<not> js_length text < 2"
  then have "text \<noteq> []" by (auto simp: js_length_def)
  with a show ?thesis unfolding isLikelyEnglish_def Let_def by (simp only: if_False simp_thms) argo
qed

lemma isLikelyEnglish_iff:
  "(isLikelyEnglish text \<longleftrightarrow>
      js_length text < 2 \<or>
      (\<not> (\<exists>c\<in>set text. non_latin c) \<and>
       \<not> 15 * js_length (trim text) < 100 * length (filter (\<lambda>c. 127 < c) (trim text)) \<and>
       \<not> (\<exists>c\<in>set text. diacritic c)))"
proof (cases "js_length text < 2")
  case True
  then show ?thesis by (simp add: isLikelyEnglish_def)
next
  case False
  show ?thesis
    unfolding isLikelyEnglish_unfold[OF False] hasNonLatinScript_trim diacritic_trim ratio_nat
    using False by blast
qed

lemma isLikelyEnglish_trim: "isLikelyEnglish text \<Longrightarrow> isLikelyEnglish (trim text)"
proof (cases "js_length (trim text) < 2")
  case True
  then show ?thesis by (simp add: isLikelyEnglish_def)
next
  case False
  assume e: "isLikelyEnglish text"
  from False have long: "\<not> js_length text < 2" using js_length_trim[of "text"] by linarith
  from e show ?thesis
    unfolding isLikelyEnglish_unfold[OF False] isLikelyEnglish_unfold[OF long] trim_idem .
qed

text \<open>
  C4 (amended). \<^verbatim>\<open>isLikelyEnglish\<close> is true for every text of fewer than two code units,
  a single CJK character included. For a longer text it is false exactly when the text has a
  code point in one of the six non-Latin blocks, or the code points above 127 of the trimmed
  text number more than 15% of its length in code units, or the text has one of the listed
  Latin letters with a diacritic; otherwise it is true. It is false for the seven-character
  CJK example and true for \<open>Remote Backend Engineer\<close>.
\<close>

theorem isLikelyEnglish_decision:
  "(isLikelyEnglish text \<longleftrightarrow>
      js_length text < 2 \<or>
      (\<not> (\<exists>c\<in>set text. non_latin c) \<and>
       \<not> 15 * js_length (trim text) < 100 * length (filter (\<lambda>c. 127 < c) (trim text)) \<and>
       \<not> (\<exists>c\<in>set text. diacritic c)))
   \<and> \<not> isLikelyEnglish [0x62DB, 0x8058, 0x8FDC, 0x7A0B, 0x5DE5, 0x7A0B, 0x5E08]
   \<and> isLikelyEnglish (str ''Remote Backend Engineer'')"
proof (intro conjI)
  show "isLikelyEnglish text \<longleftrightarrow>
      js_length text < 2 \<or>
      (\<not> (\<exists>c\<in>set text. non_latin c) \<and>
       \<not> 15 * js_length (trim text) < 100 * length (filter (\<lambda>c. 127 < c) (trim text)) \<and>
       \<not> (\<exists>c\<in>set text. diacritic c))"
    by (rule isLikelyEnglish_iff)
  show "\<not> isLikelyEnglish [0x62DB, 0x8058, 0x8FDC, 0x7A0B, 0x5DE5, 0x7A0B, 0x5E08]"
    by (simp add: isLikelyEnglish_def js_length_def units_def trim_def is_ws_def)
  show "isLikelyEnglish (str ''Remote Backend Engineer'')"
    by (simp add: isLikelyEnglish_def js_length_def units_def trim_def is_ws_def str_def
        diacritic_def)
qed

theorem isLikelyEnglish_decision_witness:
  "2 \<le> js_length [0x62DB, 0x8058] \<and> (\<exists>c\<in>set [0x62DB, 0x8058]. non_latin c)
   \<and> \<not> isLikelyEnglish [0x62DB, 0x8058]"
  using isLikelyEnglish_decision [of "[0x62DB, 0x8058]"]
  by (simp add: js_length_def units_def)

theorem isLikelyEnglish_single_cjk_counterexample:
  "(0x4E00::nat) \<le> 0x62DB \<and> (0x62DB::nat) \<le> 0x9FFF \<and> isLikelyEnglish [0x62DB]"
  by (simp add: isLikelyEnglish_def js_length_def units_def)

section \<open>translateToEnglish\<close>

lemma readTranslation_Some_iff:
  "readTranslation out = Some t \<longleftrightarrow>
     (\<exists>st stx data r s. out = Response True st stx (Inr data) \<and>
        \<not> (\<exists>q. jsget data (str ''quotaFinished'') = Some q \<and> truthy q) \<and>
        jsget data (str ''response'') = Some r \<and>
        jsget r (str ''translatedText'') = Some (JStr s) \<and> trim s \<noteq> [] \<and> t = trim s)"
  by (auto simp: readTranslation_def Let_def
      split: fetch_outcome.splits sum.splits option.splits json.splits if_splits)

lemma translateToEnglish_noop:
  "trim text = [] \<or> isLikelyEnglish (trim text) \<Longrightarrow> translateToEnglish net text = (trim text, [])"
  by (simp add: translateToEnglish_def Let_def)

lemma translateToEnglish_call:
  "trim text \<noteq> [] \<Longrightarrow> \<not> isLikelyEnglish (trim text) \<Longrightarrow>
   translateToEnglish net text =
     (case readTranslation (net (toTranslate (trim text))) of
        Some translated \<Rightarrow> translated | None \<Rightarrow> trim text, [toTranslate (trim text)])"
  by (simp add: translateToEnglish_def Let_def split: option.splits)

text \<open>
  C5. \<^verbatim>\<open>translateToEnglish\<close> returns the trimmed input and issues no request when the
  trimmed input is empty or the text is deemed likely English (in particular the empty
  string gives the empty string). Otherwise it issues exactly one request, for the trimmed
  text cut to 400 code units. The result differs from the trimmed input only when the
  response is successful, does not signal quota exhaustion and carries a translated text
  that is not blank, and it is then that text, trimmed. A rejected fetch (timeout or
  transport failure), a non-success status, an unreadable body, quota exhaustion and a blank
  translated text all give the trimmed input. The function is total: it has no error result.
\<close>

theorem translateToEnglish_best_effort:
  "(trim text = [] \<or> isLikelyEnglish (trim text) \<or> isLikelyEnglish text \<longrightarrow>
      translateToEnglish net text = (trim text, []))
   \<and> translateToEnglish net [] = ([], [])
   \<and> (trim text \<noteq> [] \<and> \<not> isLikelyEnglish (trim text) \<longrightarrow>
        snd (translateToEnglish net text) = [toTranslate (trim text)]
        \<and> (fst (translateToEnglish net text) \<noteq> trim text \<longrightarrow>
             (\<exists>st stx data r s.
                net (toTranslate (trim text)) = Response True st stx (Inr data) \<and>
                \<not> (\<exists>q. jsget data (str ''quotaFinished'') = Some q \<and> truthy q) \<and>
                jsget data (str ''response'') = Some r \<and>
                jsget r (str ''translatedText'') = Some (JStr s) \<and>
                trim s \<noteq> [] \<and> fst (translateToEnglish net text) = trim s))
        \<and> (\<forall>st stx data r s.
              net (toTranslate (trim text)) = Response True st stx (Inr data) \<and>
              \<not> (\<exists>q. jsget data (str ''quotaFinished'') = Some q \<and> truthy q) \<and>
              jsget data (str ''response'') = Some r \<and>
              jsget r (str ''translatedText'') = Some (JStr s) \<and> trim s \<noteq> []
              \<longrightarrow> fst (translateToEnglish net text) = trim s)
        \<and> ((\<exists>m. net (toTranslate (trim text)) = Rejected m) \<or>
            (\<exists>st stx body. net (toTranslate (trim text)) = Response False st stx body) \<or>
            (\<exists>ok st stx m. net (toTranslate (trim text)) = Response ok st stx (Inl m)) \<or>
            (\<exists>ok st stx data q. net (toTranslate (trim text)) = Response ok st stx (Inr data) \<and>
                jsget data (str ''quotaFinished'') = Some q \<and> truthy q) \<or>
            (\<exists>ok st stx data r s. net (toTranslate (trim text)) = Response ok st stx (Inr data) \<and>
                jsget data (str ''response'') = Some r \<and>
                jsget r (str ''translatedText'') = Some (JStr s) \<and> trim s = [])
            \<longrightarrow> fst (translateToEnglish net text) = trim text))"
proof (intro conjI impI)
  assume "trim text = [] \<or> isLikelyEnglish (trim text) \<or> isLikelyEnglish text"
  then have "trim text = [] \<or> isLikelyEnglish (trim text)" using isLikelyEnglish_trim by blast
  then show "translateToEnglish net text = (trim text, [])" by (rule translateToEnglish_noop)
next
  show "translateToEnglish net [] = ([], [])"
    using translateToEnglish_noop[of "[]" net] by (simp add: trim_Nil)
next
  assume a: "trim text \<noteq> [] \<and> \<not> isLikelyEnglish (trim text)"
  then show "snd (translateToEnglish net text) = [toTranslate (trim text)]"
    by (simp add: translateToEnglish_call)
next
  assume a: "trim text \<noteq> [] \<and> \<not> isLikelyEnglish (trim text)"
    and d: "fst (translateToEnglish net text) \<noteq> trim text"
  from a have c: "fst (translateToEnglish net text) =
     (case readTranslation (net (toTranslate (trim text))) of Some translated \<Rightarrow> translated | None \<Rightarrow> trim text)"
    by (simp add: translateToEnglish_call)
  with d obtain t where t: "readTranslation (net (toTranslate (trim text))) = Some t"
    by (cases "readTranslation (net (toTranslate (trim text)))") auto
  with c have "fst (translateToEnglish net text) = t" by simp
  with t show "\<exists>st stx data r s.
                net (toTranslate (trim text)) = Response True st stx (Inr data) \<and>
                \<not> (\<exists>q. jsget data (str ''quotaFinished'') = Some q \<and> truthy q) \<and>
                jsget data (str ''response'') = Some r \<and>
                jsget r (str ''translatedText'') = Some (JStr s) \<and>
                trim s \<noteq> [] \<and> fst (translateToEnglish net text) = trim s"
    unfolding readTranslation_Some_iff by blast
next
  assume a: "trim text \<noteq> [] \<and> \<not> isLikelyEnglish (trim text)"
  from a have c: "fst (translateToEnglish net text) =
     (case readTranslation (net (toTranslate (trim text))) of Some translated \<Rightarrow> translated | None \<Rightarrow> trim text)"
    by (simp add: translateToEnglish_call)
  show "\<forall>st stx data r s.
              net (toTranslate (trim text)) = Response True st stx (Inr data) \<and>
              \<not> (\<exists>q. jsget data (str ''quotaFinished'') = Some q \<and> truthy q) \<and>
              jsget data (str ''response'') = Some r \<and>
              jsget r (str ''translatedText'') = Some (JStr s) \<and> trim s \<noteq> []
              \<longrightarrow> fst (translateToEnglish net text) = trim s"
  proof (intro allI impI)
    fix st stx data r s
    assume h: "net (toTranslate (trim text)) = Response True st stx (Inr data) \<and>
              \<not> (\<exists>q. jsget data (str ''quotaFinished'') = Some q \<and> truthy q) \<and>
              jsget data (str ''response'') = Some r \<and>
              jsget r (str ''translatedText'') = Some (JStr s) \<and> trim s \<noteq> []"
    then have "readTranslation (net (toTranslate (trim text))) = Some (trim s)"
      unfolding readTranslation_Some_iff by blast
    with c show "fst (translateToEnglish net text) = trim s" by simp
  qed
next
  assume a: "trim text \<noteq> [] \<and> \<not> isLikelyEnglish (trim text)"
    and f: "(\<exists>m. net (toTranslate (trim text)) = Rejected m) \<or>
            (\<exists>st stx body. net (toTranslate (trim text)) = Response False st stx body) \<or>
            (\<exists>ok st stx m. net (toTranslate (trim text)) = Response ok st stx (Inl m)) \<or>
            (\<exists>ok st stx data q. net (toTranslate (trim text)) = Response ok st stx (Inr data) \<and>
                jsget data (str ''quotaFinished'') = Some q \<and> truthy q) \<or>
            (\<exists>ok st stx data r s. net (toTranslate (trim text)) = Response ok st stx (Inr data) \<and>
                jsget data (str ''response'') = Some r \<and>
                jsget r (str ''translatedText'') = Some (JStr s) \<and> trim s = [])"
  from a have c: "fst (translateToEnglish net text) =
     (case readTranslation (net (toTranslate (trim text))) of Some translated \<Rightarrow> translated | None \<Rightarrow> trim text)"
    by (simp add: translateToEnglish_call)
  have "readTranslation (net (toTranslate (trim text))) = None"
  proof (cases "readTranslation (net (toTranslate (trim text)))")
    case None then show ?thesis .
  next
    case (Some t)
    then obtain st stx data r s where
      "net (toTranslate (trim text)) = Response True st stx (Inr data)"
      "\<not> (\<exists>q. jsget data (str ''quotaFinished'') = Some q \<and> truthy q)"
      "jsget data (str ''response'') = Some r"
      "jsget r (str ''translatedText'') = Some (JStr s)" "trim s \<noteq> []"
      unfolding readTranslation_Some_iff by blast
    with f show ?thesis by auto
  qed
  with c show "fst (translateToEnglish net text) = trim text" by simp
qed

theorem translateToEnglish_best_effort_witness:
  "trim [0x62DB, 0x8058] \<noteq> [] \<and> \<not> isLikelyEnglish (trim [0x62DB, 0x8058]) \<and>
   translateToEnglish
     (\<lambda>q. Response True 200 (str ''OK'')
        (Inr (JObj [(str ''response'', JObj [(str ''translatedText'', JStr (str ''Hiring ''))])])))
     [0x62DB, 0x8058]
   = (str ''Hiring'', [[0x62DB, 0x8058]])"
proof -
  let ?net = "\<lambda>q::jsstring. Response True 200 (str ''OK'')
        (Inr (JObj [(str ''response'', JObj [(str ''translatedText'', JStr (str ''Hiring ''))])]))"
  have t: "trim [0x62DB, 0x8058] = [0x62DB, 0x8058]"
    by (simp add: trim_def is_ws_def)
  have n: "\<not> isLikelyEnglish [0x62DB, 0x8058]"
    by (simp add: isLikelyEnglish_def js_length_def units_def trim_def is_ws_def)
  have q: "toTranslate [0x62DB, 0x8058] = [0x62DB, 0x8058]"
    by (simp add: toTranslate_def js_length_def units_def MAX_CHARS_PER_REQUEST_def)
  have s: "trim (str ''Hiring '') = str ''Hiring''"
    by (simp add: trim_def is_ws_def str_def)
  have k: "str ''quotaFinished'' \<noteq> str ''response''"
    by (simp add: str_def)
  have e: "str ''Hiring'' \<noteq> []"
    by (simp add: str_def)
  from translateToEnglish_best_effort [of "[0x62DB, 0x8058]" ?net]
  have "snd (translateToEnglish ?net [0x62DB, 0x8058]) = [[0x62DB, 0x8058]]"
    and "fst (translateToEnglish ?net [0x62DB, 0x8058]) = str ''Hiring''"
    unfolding t q using n s k e by auto
  then have "translateToEnglish ?net [0x62DB, 0x8058] = (str ''Hiring'', [[0x62DB, 0x8058]])"
    by (metis prod.collapse)
  with t n show ?thesis by simp
qed

section \<open>ensureJobsEnglish\<close>

lemma ensureJobsEnglish_loop_eq:
  "ensureJobsEnglish_loop net jobs i out =
     out @ map (\<lambda>(k, j). ensureJobEnglish (net k) j) (enumerate i (drop i jobs))"
proof (induction net jobs i out rule: ensureJobsEnglish_loop.induct)
  case (1 net jobs i out)
  let ?f = "\<lambda>(k, j). ensureJobEnglish (net k) j"
  show ?case
  proof (cases "i < length jobs")
    case True
    let ?batch = "take CONCURRENCY (drop i jobs)"
    have d: "drop i jobs = ?batch @ drop (i + CONCURRENCY) jobs"
      by (metis append_take_drop_id drop_drop add.commute)
    have e: "enumerate (i + length ?batch) (drop (i + CONCURRENCY) jobs)
           = enumerate (i + CONCURRENCY) (drop (i + CONCURRENCY) jobs)"
    proof (cases "CONCURRENCY \<le> length jobs - i")
      case True then show ?thesis by (simp add: min_def)
    next
      case False then show ?thesis by simp
    qed
    have "enumerate i (drop i jobs) =
          enumerate i ?batch @ enumerate (i + length ?batch) (drop (i + CONCURRENCY) jobs)"
      by (subst d) (simp only: enumerate_append_eq)
    with e have s: "map ?f (enumerate i (drop i jobs)) =
        map ?f (enumerate i ?batch) @
        map ?f (enumerate (i + CONCURRENCY) (drop (i + CONCURRENCY) jobs))"
      by simp
    have "ensureJobsEnglish_loop net jobs i out =
          ensureJobsEnglish_loop net jobs (i + CONCURRENCY) (out @ map ?f (enumerate i ?batch))"
      using True by (subst ensureJobsEnglish_loop.simps) (simp add: Let_def)
    also have "\<dots> = (out @ map ?f (enumerate i ?batch)) @
        map ?f (enumerate (i + CONCURRENCY) (drop (i + CONCURRENCY) jobs))"
      using True by (rule "1.IH"[OF _ refl refl])
    finally show ?thesis using s by simp
  next
    case False
    then show ?thesis by (subst ensureJobsEnglish_loop.simps) simp
  qed
qed

lemma ensureJobsEnglish_map:
  "ensureJobsEnglish net jobs = map (\<lambda>(k, j). ensureJobEnglish (net k) j) (enumerate 0 jobs)"
  by (simp add: ensureJobsEnglish_def ensureJobsEnglish_loop_eq)

lemma ensureJobsEnglish_length: "length (ensureJobsEnglish net jobs) = length jobs"
  by (simp add: ensureJobsEnglish_map)

lemma ensureJobsEnglish_nth:
  "i < length jobs \<Longrightarrow> ensureJobsEnglish net jobs ! i = ensureJobEnglish (net i) (jobs ! i)"
  by (simp add: ensureJobsEnglish_map nth_enumerate_eq)

lemma ensureJobEnglish_more: "JobTextFields.more (ensureJobEnglish net job) = JobTextFields.more job"
  by (simp add: ensureJobEnglish_def Let_def)

text \<open>
  C10. \<^verbatim>\<open>ensureJobsEnglish\<close> returns a list of the length of its input whose \<open>i\<close>-th element
  is \<^verbatim>\<open>ensureJobEnglish\<close> of the \<open>i\<close>-th input record: the input record with only its
  title, company, location and description possibly rewritten, every other field unchanged.
\<close>

theorem ensureJobsEnglish_aligned:
  "length (ensureJobsEnglish net jobs) = length jobs \<and>
   (\<forall>i<length jobs.
      ensureJobsEnglish net jobs ! i = ensureJobEnglish (net i) (jobs ! i) \<and>
      JobTextFields.more (ensureJobsEnglish net jobs ! i) = JobTextFields.more (jobs ! i) \<and>
      (\<exists>t c l d. ensureJobsEnglish net jobs ! i =
          (jobs ! i)\<lparr>title := t, company := c, location := l, description := d\<rparr>))"
proof (intro conjI allI impI)
  show "length (ensureJobsEnglish net jobs) = length jobs" by (rule ensureJobsEnglish_length)
next
  fix i assume "i < length jobs"
  then show "ensureJobsEnglish net jobs ! i = ensureJobEnglish (net i) (jobs ! i)"
    by (rule ensureJobsEnglish_nth)
next
  fix i assume "i < length jobs"
  then show "JobTextFields.more (ensureJobsEnglish net jobs ! i) = JobTextFields.more (jobs ! i)"
    by (simp add: ensureJobsEnglish_nth ensureJobEnglish_more)
next
  fix i assume i: "i < length jobs"
  have "\<exists>t c l d. ensureJobEnglish (net i) (jobs ! i) =
          (jobs ! i)\<lparr>title := t, company := c, location := l, description := d\<rparr>"
    unfolding ensureJobEnglish_def Let_def by blast
  with i show "\<exists>t c l d. ensureJobsEnglish net jobs ! i =
          (jobs ! i)\<lparr>title := t, company := c, location := l, description := d\<rparr>"
    by (simp add: ensureJobsEnglish_nth)
qed

theorem ensureJobsEnglish_aligned_witness:
  "(3::nat) < length [\<lparr>title = [0x62DB, 0x8058], company = str ''a'', location = None, description = None\<rparr>,
       \<lparr>title = str ''b'', company = str ''b'', location = None, description = None\<rparr>,
       \<lparr>title = str ''c'', company = str ''c'', location = None, description = None\<rparr>,
       \<lparr>title = str ''d'', company = str ''d'', location = Some [], description = None\<rparr>]
   \<and> JobTextFields.more (ensureJobsEnglish (\<lambda>k f q. Rejected [])
       [\<lparr>title = [0x62DB, 0x8058], company = str ''a'', location = None, description = None\<rparr>,
        \<lparr>title = str ''b'', company = str ''b'', location = None, description = None\<rparr>,
        \<lparr>title = str ''c'', company = str ''c'', location = None, description = None\<rparr>,
        \<lparr>title = str ''d'', company = str ''d'', location = Some [], description = None\<rparr>] ! 3) = ()"
  using ensureJobsEnglish_aligned [of "\<lambda>k f q. Rejected []"
       "[\<lparr>title = [0x62DB, 0x8058], company = str ''a'', location = None, description = None\<rparr>,
        \<lparr>title = str ''b'', company = str ''b'', location = None, description = None\<rparr>,
        \<lparr>title = str ''c'', company = str ''c'', location = None, description = None\<rparr>,
        \<lparr>title = str ''d'', company = str ''d'', location = Some [], description = None\<rparr>]"]
  by simp

section \<open>Translation backfill\<close>

lemma update_by_id_nth:
  assumes "distinct (map db_id jobs)" "map db_id tbl = map db_id jobs" "i < length jobs" "k < length jobs"
  shows "update_by_id tbl (db_id (jobs ! i)) t c l d ! k =
     (if k = i then set_columns (tbl ! i) t c l d else tbl ! k)"
proof -
  have len: "length tbl = length jobs" using assms(2) by (metis length_map)
  have "db_id (tbl ! k) = db_id (jobs ! k)" using assms(2,4) len by (metis nth_map)
  moreover have "db_id (jobs ! k) = db_id (jobs ! i) \<longleftrightarrow> k = i"
    using assms(1,3,4) by (metis distinct_conv_nth length_map nth_map)
  ultimately show ?thesis using assms(4) len by (auto simp: update_by_id_def)
qed

lemma update_by_id_ids: "map db_id (update_by_id tbl i t c l d) = map db_id tbl"
  by (simp add: update_by_id_def set_columns_def)

lemma filter_upt_step:
  "i < n \<Longrightarrow> length (filter P [i..<n]) = (if P i then 1 else 0) + length (filter P [Suc i..<n])"
  by (simp add: upt_conv_Cons)

lemma translate_loop_inv:
  assumes "distinct (map db_id jobs)" "map db_id tbl = map db_id jobs"
  shows "\<exists>tbl' n. translate_loop upd_ok jobs translated i tbl updated = (tbl', n) \<and>
           map db_id tbl' = map db_id jobs \<and>
           (\<forall>k<length jobs. tbl' ! k =
               (if i \<le> k \<and> changed (jobs ! k) (translated ! k) \<and> upd_ok k
                then set_columns (tbl ! k) (title (translated ! k)) (company (translated ! k))
                       (new_location (jobs ! k) (translated ! k))
                       (new_description (jobs ! k) (translated ! k))
                else tbl ! k)) \<and>
           n = updated + length (filter (\<lambda>k. changed (jobs ! k) (translated ! k) \<and> upd_ok k) [i..<length jobs])"
  using assms
proof (induction upd_ok jobs translated i tbl updated rule: translate_loop.induct)
  case (1 upd_ok jobs translated i tbl updated)
  let ?sel = "\<lambda>k. changed (jobs ! k) (translated ! k) \<and> upd_ok k"
  let ?new = "\<lambda>r k. set_columns r (title (translated ! k)) (company (translated ! k))
                       (new_location (jobs ! k) (translated ! k))
                       (new_description (jobs ! k) (translated ! k))"
  show ?case
  proof (cases "i < length jobs")
    case False
    then have "translate_loop upd_ok jobs translated i tbl updated = (tbl, updated)"
      by (subst translate_loop.simps) simp
    with False "1.prems" show ?thesis by simp
  next
    case True
    note lt = True
    have cnt: "length (filter ?sel [i..<length jobs]) =
          (if ?sel i then 1 else 0) + length (filter ?sel [Suc i..<length jobs])"
      using lt by (rule filter_upt_step)
    show ?thesis
    proof (cases "?sel i")
      case False
      have step: "translate_loop upd_ok jobs translated i tbl updated =
            translate_loop upd_ok jobs translated (i + 1) tbl updated"
        using lt False by (subst translate_loop.simps) (auto simp: Let_def)
      have "\<exists>tbl' n. translate_loop upd_ok jobs translated (i + 1) tbl updated = (tbl', n) \<and>
           map db_id tbl' = map db_id jobs \<and>
           (\<forall>k<length jobs. tbl' ! k = (if i + 1 \<le> k \<and> ?sel k then ?new (tbl ! k) k else tbl ! k)) \<and>
           n = updated + length (filter ?sel [i + 1..<length jobs])"
      proof (cases "changed (jobs ! i) (translated ! i)")
        case False
        show ?thesis using "1.IH"(1)[OF lt refl refl False "1.prems"] .
      next
        case c: True
        with False have nu: "\<not> upd_ok i" by simp
        show ?thesis using "1.IH"(3)[OF lt refl refl _ refl nu "1.prems"] c by simp
      qed
      then obtain tbl' n where
        r: "translate_loop upd_ok jobs translated (i + 1) tbl updated = (tbl', n)"
        and ids: "map db_id tbl' = map db_id jobs"
        and nth: "\<forall>k<length jobs. tbl' ! k = (if i + 1 \<le> k \<and> ?sel k then ?new (tbl ! k) k else tbl ! k)"
        and n: "n = updated + length (filter ?sel [i + 1..<length jobs])"
        by blast
      have "\<forall>k<length jobs. tbl' ! k = (if i \<le> k \<and> ?sel k then ?new (tbl ! k) k else tbl ! k)"
      proof (intro allI impI)
        fix k assume "k < length jobs"
        with nth have e: "tbl' ! k = (if i + 1 \<le> k \<and> ?sel k then ?new (tbl ! k) k else tbl ! k)" by blast
        have "(i + 1 \<le> k \<and> ?sel k) \<longleftrightarrow> (i \<le> k \<and> ?sel k)"
          using False by (cases "k = i") auto
        with e show "tbl' ! k = (if i \<le> k \<and> ?sel k then ?new (tbl ! k) k else tbl ! k)" by simp
      qed
      moreover have "n = updated + length (filter ?sel [i..<length jobs])"
        using n cnt False by simp
      ultimately show ?thesis using step r ids by simp
    next
      case True
      then have c: "changed (jobs ! i) (translated ! i)" and u: "upd_ok i" by simp_all
      let ?tbl1 = "update_by_id tbl (db_id (jobs ! i)) (title (translated ! i)) (company (translated ! i))
                       (new_location (jobs ! i) (translated ! i)) (new_description (jobs ! i) (translated ! i))"
      have step: "translate_loop upd_ok jobs translated i tbl updated =
            translate_loop upd_ok jobs translated (i + 1) ?tbl1 (updated + 1)"
        using lt c u by (subst translate_loop.simps) (auto simp: Let_def)
      have ids1: "map db_id ?tbl1 = map db_id jobs"
        using "1.prems"(2) by (simp only: update_by_id_ids)
      have c': "\<not> \<not> changed (jobs ! i) (translated ! i)" using c by simp
      have "\<exists>tbl' n. translate_loop upd_ok jobs translated (i + 1) ?tbl1 (updated + 1) = (tbl', n) \<and>
           map db_id tbl' = map db_id jobs \<and>
           (\<forall>k<length jobs. tbl' ! k = (if i + 1 \<le> k \<and> ?sel k then ?new (?tbl1 ! k) k else ?tbl1 ! k)) \<and>
           n = updated + 1 + length (filter ?sel [i + 1..<length jobs])"
        using "1.IH"(2)[OF lt refl refl c' refl u "1.prems"(1) ids1] .
      then obtain tbl' n where
        r: "translate_loop upd_ok jobs translated (i + 1) ?tbl1 (updated + 1) = (tbl', n)"
        and ids: "map db_id tbl' = map db_id jobs"
        and nth: "\<forall>k<length jobs. tbl' ! k = (if i + 1 \<le> k \<and> ?sel k then ?new (?tbl1 ! k) k else ?tbl1 ! k)"
        and n: "n = updated + 1 + length (filter ?sel [i + 1..<length jobs])"
        by blast
      have "\<forall>k<length jobs. tbl' ! k = (if i \<le> k \<and> ?sel k then ?new (tbl ! k) k else tbl ! k)"
      proof (intro allI impI)
        fix k assume k: "k < length jobs"
        with nth have e: "tbl' ! k = (if i + 1 \<le> k \<and> ?sel k then ?new (?tbl1 ! k) k else ?tbl1 ! k)" by blast
        have t1: "?tbl1 ! k = (if k = i then ?new (tbl ! i) i else tbl ! k)"
          using update_by_id_nth[OF "1.prems"(1) "1.prems"(2) lt k] .
        show "tbl' ! k = (if i \<le> k \<and> ?sel k then ?new (tbl ! k) k else tbl ! k)"
        proof (cases "k = i")
          case True
          with e t1 \<open>?sel i\<close> show ?thesis by simp
        next
          case False
          then have "(i + 1 \<le> k) \<longleftrightarrow> (i \<le> k)" by auto
          with e t1 False show ?thesis by simp
        qed
      qed
      moreover have "n = updated + length (filter ?sel [i..<length jobs])"
        using n cnt True by simp
      ultimately show ?thesis using step r ids by simp
    qed
  qed
qed

lemma ensureJobEnglish_location: "\<exists>l. location (ensureJobEnglish net job) = Some l"
  by (simp add: ensureJobEnglish_def Let_def)

lemma ensureJobEnglish_description_None:
  "description (ensureJobEnglish net job) = None \<longleftrightarrow> description job = None"
  by (simp add: ensureJobEnglish_def Let_def split: option.splits)

lemma new_values_translated:
  assumes "t = ensureJobEnglish net (text_fields orig)"
  shows "new_location orig t = the (location t)" "Some (new_location orig t) = location t"
    "new_description orig t = description t"
proof -
  obtain l where l: "location t = Some l" using assms ensureJobEnglish_location by blast
  then show "new_location orig t = the (location t)" "Some (new_location orig t) = location t"
    by (simp_all add: new_location_def)
  have "description t = None \<longleftrightarrow> db_description orig = None"
    using assms by (simp add: ensureJobEnglish_description_None text_fields_def)
  then show "new_description orig t = description t"
    by (cases "description t") (simp_all add: new_description_def)
qed

lemma changed_row_differs:
  assumes "t = ensureJobEnglish net (text_fields orig)" "changed orig t"
  shows "set_columns orig (title t) (company t) (new_location orig t) (new_description orig t) \<noteq> orig"
proof
  assume e: "set_columns orig (title t) (company t) (new_location orig t) (new_description orig t) = orig"
  let ?r = "set_columns orig (title t) (company t) (new_location orig t) (new_description orig t)"
  have 1: "db_title ?r = Some (title t)" "db_company ?r = Some (company t)"
      "db_location ?r = Some (new_location orig t)" "db_description ?r = new_description orig t"
    by (simp_all add: set_columns_def)
  from 1 e have 2: "db_title orig = Some (title t)" "db_company orig = Some (company t)"
      "db_location orig = location t" "db_description orig = description t"
    using new_values_translated[OF assms(1)] by simp_all
  with assms(2) show False by (simp add: changed_def)
qed

lemma POST_translate_jobs_effect:
  assumes "distinct (map db_id tbl)" and "tbl \<noteq> []"
  shows "\<exists>tbl' updated.
     POST_translate_jobs None None upd_ok net tbl = (tbl', Translated (length tbl) updated) \<and>
     length tbl' = length tbl \<and>
     (\<forall>i<length tbl.
        (tbl' ! i \<noteq> tbl ! i \<longleftrightarrow>
           changed (tbl ! i) (ensureJobEnglish (net i) (text_fields (tbl ! i))) \<and> upd_ok i) \<and>
        (changed (tbl ! i) (ensureJobEnglish (net i) (text_fields (tbl ! i))) \<and> upd_ok i \<longrightarrow>
           db_id (tbl' ! i) = db_id (tbl ! i) \<and>
           db_apply_url (tbl' ! i) = db_apply_url (tbl ! i) \<and>
           db_title (tbl' ! i) = Some (title (ensureJobEnglish (net i) (text_fields (tbl ! i)))) \<and>
           db_company (tbl' ! i) = Some (company (ensureJobEnglish (net i) (text_fields (tbl ! i)))) \<and>
           db_location (tbl' ! i) = location (ensureJobEnglish (net i) (text_fields (tbl ! i))) \<and>
           db_description (tbl' ! i) = description (ensureJobEnglish (net i) (text_fields (tbl ! i))))) \<and>
     updated = length (filter (\<lambda>i. changed (tbl ! i) (ensureJobEnglish (net i) (text_fields (tbl ! i)))
                                  \<and> upd_ok i)
                         [0..<length tbl])"
proof -
  let ?translated = "ensureJobsEnglish net (map text_fields tbl)"
  let ?t = "\<lambda>i. ensureJobEnglish (net i) (text_fields (tbl ! i))"
  have tr: "\<forall>i<length tbl. ?translated ! i = ?t i"
    by (simp add: ensureJobsEnglish_nth)
  obtain tbl' n where
    r: "translate_loop upd_ok tbl ?translated 0 tbl 0 = (tbl', n)"
    and ids: "map db_id tbl' = map db_id tbl"
    and nth: "\<forall>k<length tbl. tbl' ! k =
               (if 0 \<le> k \<and> changed (tbl ! k) (?translated ! k) \<and> upd_ok k
                then set_columns (tbl ! k) (title (?translated ! k)) (company (?translated ! k))
                       (new_location (tbl ! k) (?translated ! k))
                       (new_description (tbl ! k) (?translated ! k))
                else tbl ! k)"
    and n: "n = 0 + length (filter (\<lambda>k. changed (tbl ! k) (?translated ! k) \<and> upd_ok k) [0..<length tbl])"
    using translate_loop_inv[OF assms(1) refl, of upd_ok ?translated 0 0] by blast
  have post: "POST_translate_jobs None None upd_ok net tbl = (tbl', Translated (length tbl) n)"
    using assms(2) r by (simp add: POST_translate_jobs_def Let_def)
  have len: "length tbl' = length tbl" using ids by (metis length_map)
  have nth': "\<forall>k<length tbl. tbl' ! k =
               (if changed (tbl ! k) (?t k) \<and> upd_ok k
                then set_columns (tbl ! k) (title (?t k)) (company (?t k))
                       (new_location (tbl ! k) (?t k)) (new_description (tbl ! k) (?t k))
                else tbl ! k)"
    using nth tr by simp
  have cnt: "n = length (filter (\<lambda>i. changed (tbl ! i) (?t i) \<and> upd_ok i) [0..<length tbl])"
  proof -
    have "filter (\<lambda>k. changed (tbl ! k) (?translated ! k) \<and> upd_ok k) [0..<length tbl]
        = filter (\<lambda>i. changed (tbl ! i) (?t i) \<and> upd_ok i) [0..<length tbl]"
      by (rule filter_cong) (use tr in auto)
    with n show ?thesis by simp
  qed
  have rows: "\<forall>i<length tbl.
        (tbl' ! i \<noteq> tbl ! i \<longleftrightarrow> changed (tbl ! i) (?t i) \<and> upd_ok i) \<and>
        (changed (tbl ! i) (?t i) \<and> upd_ok i \<longrightarrow>
           db_id (tbl' ! i) = db_id (tbl ! i) \<and>
           db_apply_url (tbl' ! i) = db_apply_url (tbl ! i) \<and>
           db_title (tbl' ! i) = Some (title (?t i)) \<and>
           db_company (tbl' ! i) = Some (company (?t i)) \<and>
           db_location (tbl' ! i) = location (?t i) \<and>
           db_description (tbl' ! i) = description (?t i))"
  proof (intro allI impI)
    fix i assume i: "i < length tbl"
    show "(tbl' ! i \<noteq> tbl ! i \<longleftrightarrow> changed (tbl ! i) (?t i) \<and> upd_ok i) \<and>
        (changed (tbl ! i) (?t i) \<and> upd_ok i \<longrightarrow>
           db_id (tbl' ! i) = db_id (tbl ! i) \<and>
           db_apply_url (tbl' ! i) = db_apply_url (tbl ! i) \<and>
           db_title (tbl' ! i) = Some (title (?t i)) \<and>
           db_company (tbl' ! i) = Some (company (?t i)) \<and>
           db_location (tbl' ! i) = location (?t i) \<and>
           db_description (tbl' ! i) = description (?t i))"
    proof (cases "changed (tbl ! i) (?t i) \<and> upd_ok i")
      case False
      with nth' i show ?thesis by auto
    next
      case True
      then have ch: "changed (tbl ! i) (?t i)" by simp
      from True nth' i have e: "tbl' ! i = set_columns (tbl ! i) (title (?t i)) (company (?t i))
                       (new_location (tbl ! i) (?t i)) (new_description (tbl ! i) (?t i))" by simp
      have d: "tbl' ! i \<noteq> tbl ! i" unfolding e using changed_row_differs[OF refl ch] .
      have "db_location (tbl' ! i) = location (?t i)" "db_description (tbl' ! i) = description (?t i)"
        unfolding e using new_values_translated[OF refl, of "tbl ! i" "net i"]
        by (simp_all add: set_columns_def)
      moreover have "db_id (tbl' ! i) = db_id (tbl ! i)" "db_apply_url (tbl' ! i) = db_apply_url (tbl ! i)"
        "db_title (tbl' ! i) = Some (title (?t i))" "db_company (tbl' ! i) = Some (company (?t i))"
        unfolding e by (simp_all add: set_columns_def)
      ultimately show ?thesis using d True by simp
    qed
  qed
  from post len rows cnt show ?thesis by blast
qed


text \<open>
  C8 (amended). On a table with unique identifiers, the backfill rewrites a stored row
  exactly when the text \<^verbatim>\<open>ensureJobEnglish\<close> returns for its title, company, location or
  description differs from the stored text and the storage service accepts the update; a
  rewritten row receives the four returned texts and keeps its identifier and apply URL,
  every other row is left as it was, and \<open>updated\<close> is the number of rewritten rows.
\<close>

theorem backfill_updates_changed_rows:
  assumes "distinct (map db_id tbl)" and "tbl \<noteq> []"
  shows "\<exists>tbl' updated.
     POST_translate_jobs None None upd_ok net tbl = (tbl', Translated (length tbl) updated) \<and>
     length tbl' = length tbl \<and>
     (\<forall>i<length tbl.
        (tbl' ! i \<noteq> tbl ! i \<longleftrightarrow>
           changed (tbl ! i) (ensureJobEnglish (net i) (text_fields (tbl ! i))) \<and> upd_ok i) \<and>
        (changed (tbl ! i) (ensureJobEnglish (net i) (text_fields (tbl ! i))) \<and> upd_ok i \<longrightarrow>
           db_id (tbl' ! i) = db_id (tbl ! i) \<and>
           db_apply_url (tbl' ! i) = db_apply_url (tbl ! i) \<and>
           db_title (tbl' ! i) = Some (title (ensureJobEnglish (net i) (text_fields (tbl ! i)))) \<and>
           db_company (tbl' ! i) = Some (company (ensureJobEnglish (net i) (text_fields (tbl ! i)))) \<and>
           db_location (tbl' ! i) = location (ensureJobEnglish (net i) (text_fields (tbl ! i))) \<and>
           db_description (tbl' ! i) = description (ensureJobEnglish (net i) (text_fields (tbl ! i))))) \<and>
     updated = length (filter (\<lambda>i. changed (tbl ! i) (ensureJobEnglish (net i) (text_fields (tbl ! i)))
                                  \<and> upd_ok i)
                         [0..<length tbl])"
  using assms by (rule POST_translate_jobs_effect)

theorem backfill_updates_changed_rows_witness:
  "distinct (map db_id
     [\<lparr>db_id = 1, db_title = Some [0x62DB, 0x8058], db_company = Some (str ''Acme''),
       db_location = Some (str ''Remote''), db_description = None, db_apply_url = str ''u1''\<rparr>,
      \<lparr>db_id = 2, db_title = Some (str ''Engineer''), db_company = Some (str ''Acme''),
       db_location = Some (str ''Remote''), db_description = Some (str ''Build''), db_apply_url = str ''u2''\<rparr>,
      \<lparr>db_id = 3, db_title = Some (str ''Designer''), db_company = Some (str ''Acme''),
       db_location = Some (str ''Berlin''), db_description = None, db_apply_url = str ''u3''\<rparr>])
   \<and> snd (POST_translate_jobs None None (\<lambda>i. True)
       (\<lambda>i f q. Response True 200 (str ''OK'')
          (Inr (JObj [(str ''response'', JObj [(str ''translatedText'', JStr (str ''Hiring''))])])))
     [\<lparr>db_id = 1, db_title = Some [0x62DB, 0x8058], db_company = Some (str ''Acme''),
       db_location = Some (str ''Remote''), db_description = None, db_apply_url = str ''u1''\<rparr>,
      \<lparr>db_id = 2, db_title = Some (str ''Engineer''), db_company = Some (str ''Acme''),
       db_location = Some (str ''Remote''), db_description = Some (str ''Build''), db_apply_url = str ''u2''\<rparr>,
      \<lparr>db_id = 3, db_title = Some (str ''Designer''), db_company = Some (str ''Acme''),
       db_location = Some (str ''Berlin''), db_description = None, db_apply_url = str ''u3''\<rparr>])
     = Translated 3 1"
proof -
  let ?net = "\<lambda>(i::nat) (f::field) (q::jsstring). Response True 200 (str ''OK'')
          (Inr (JObj [(str ''response'', JObj [(str ''translatedText'', JStr (str ''Hiring''))])]))"
  let ?r0 = "\<lparr>db_id = 1, db_title = Some [0x62DB, 0x8058], db_company = Some (str ''Acme''),
       db_location = Some (str ''Remote''), db_description = None, db_apply_url = str ''u1''\<rparr>"
  let ?r1 = "\<lparr>db_id = 2, db_title = Some (str ''Engineer''), db_company = Some (str ''Acme''),
       db_location = Some (str ''Remote''), db_description = Some (str ''Build''), db_apply_url = str ''u2''\<rparr>"
  let ?r2 = "\<lparr>db_id = 3, db_title = Some (str ''Designer''), db_company = Some (str ''Acme''),
       db_location = Some (str ''Berlin''), db_description = None, db_apply_url = str ''u3''\<rparr>"
  let ?T = "[?r0, ?r1, ?r2]"
  note ev = changed_def ensureJobEnglish_def text_fields_def translateToEnglish_def Let_def
    trim_def is_ws_def isLikelyEnglish_def js_length_def units_def str_def diacritic_def
    readTranslation_def toTranslate_def MAX_CHARS_PER_REQUEST_def
  have d: "distinct (map db_id ?T)" by simp
  have c0: "changed ?r0 (ensureJobEnglish (?net 0) (text_fields ?r0))"
    by (simp add: ev)
  have c1: "\<not> changed ?r1 (ensureJobEnglish (?net 1) (text_fields ?r1))"
    by (simp add: ev)
  have c2: "\<not> changed ?r2 (ensureJobEnglish (?net 2) (text_fields ?r2))"
    by (simp add: ev)
  have u: "[0..<length ?T] = [0, 1, 2]" by (simp add: upt_rec)
  have "length (filter (\<lambda>i. changed (?T ! i) (ensureJobEnglish (?net i) (text_fields (?T ! i)))
                                  \<and> (\<lambda>i. True) i)
                         [0..<length ?T]) = 1"
    unfolding u using c0 c1 c2 by simp
  moreover have "length ?T = 3" by simp
  ultimately have "snd (POST_translate_jobs None None (\<lambda>i. True) ?net ?T) = Translated 3 1"
    using backfill_updates_changed_rows [OF d, of "\<lambda>i. True" ?net] by auto
  with d show ?thesis by blast
qed

theorem backfill_trimmed_row_counterexample:
  "snd (POST_translate_jobs None None (\<lambda>i. True)
       (\<lambda>i f q. Response True 200 (str ''OK'')
          (Inr (JObj [(str ''response'', JObj [(str ''translatedText'', JStr (str ''Hiring''))])])))
     [\<lparr>db_id = 1, db_title = Some [0x62DB, 0x8058], db_company = Some (str ''Acme''),
       db_location = Some (str ''Remote''), db_description = None, db_apply_url = str ''u1''\<rparr>,
      \<lparr>db_id = 2, db_title = Some (str ''Engineer ''), db_company = Some (str ''Acme''),
       db_location = Some (str ''Remote''), db_description = None, db_apply_url = str ''u2''\<rparr>,
      \<lparr>db_id = 3, db_title = Some (str ''Designer''), db_company = Some (str ''Acme''),
       db_location = Some (str ''Berlin''), db_description = None, db_apply_url = str ''u3''\<rparr>])
     = Translated 3 2
   \<and> isLikelyEnglish (str ''Engineer '') \<and> isLikelyEnglish (str ''Designer'')
   \<and> \<not> isLikelyEnglish [0x62DB, 0x8058]"
proof -
  let ?net = "\<lambda>(i::nat) (f::field) (q::jsstring). Response True 200 (str ''OK'')
          (Inr (JObj [(str ''response'', JObj [(str ''translatedText'', JStr (str ''Hiring''))])]))"
  let ?r0 = "\<lparr>db_id = 1, db_title = Some [0x62DB, 0x8058], db_company = Some (str ''Acme''),
       db_location = Some (str ''Remote''), db_description = None, db_apply_url = str ''u1''\<rparr>"
  let ?r1 = "\<lparr>db_id = 2, db_title = Some (str ''Engineer ''), db_company = Some (str ''Acme''),
       db_location = Some (str ''Remote''), db_description = None, db_apply_url = str ''u2''\<rparr>"
  let ?r2 = "\<lparr>db_id = 3, db_title = Some (str ''Designer''), db_company = Some (str ''Acme''),
       db_location = Some (str ''Berlin''), db_description = None, db_apply_url = str ''u3''\<rparr>"
  let ?T = "[?r0, ?r1, ?r2]"
  note ev = changed_def ensureJobEnglish_def text_fields_def translateToEnglish_def Let_def
    trim_def is_ws_def isLikelyEnglish_def js_length_def units_def str_def diacritic_def
    readTranslation_def toTranslate_def MAX_CHARS_PER_REQUEST_def
  have d: "distinct (map db_id ?T)" by simp
  have c0: "changed ?r0 (ensureJobEnglish (?net 0) (text_fields ?r0))"
    by (simp add: ev)
  have c1: "changed ?r1 (ensureJobEnglish (?net 1) (text_fields ?r1))"
    by (simp add: ev)
  have c2: "\<not> changed ?r2 (ensureJobEnglish (?net 2) (text_fields ?r2))"
    by (simp add: ev)
  have u: "[0..<length ?T] = [0, 1, 2]" by (simp add: upt_rec)
  have "length (filter (\<lambda>i. changed (?T ! i) (ensureJobEnglish (?net i) (text_fields (?T ! i)))
                                  \<and> (\<lambda>i. True) i)
                         [0..<length ?T]) = 2"
    unfolding u using c0 c1 c2 by simp
  moreover have "length ?T = 3" by simp
  ultimately have "snd (POST_translate_jobs None None (\<lambda>i. True) ?net ?T) = Translated 3 2"
    using POST_translate_jobs_effect [OF d, of "\<lambda>i. True" ?net] by auto
  moreover have "isLikelyEnglish (str ''Engineer '')" "isLikelyEnglish (str ''Designer'')"
    "\<not> isLikelyEnglish [0x62DB, 0x8058]"
    by (simp_all add: isLikelyEnglish_def js_length_def units_def trim_def is_ws_def str_def
        diacritic_def)
  ultimately show ?thesis by blast
qed

section \<open>Query layer\<close>

lemma buildJobsQuery_skip:
  "b_query (buildJobsQuery filters True) =
     (b_query (buildJobsQuery filters False))\<lparr>q_category := None, q_experience := None\<rparr>"
  "b_limit (buildJobsQuery filters True) = b_limit (buildJobsQuery filters False)"
  "b_page (buildJobsQuery filters True) = b_page (buildJobsQuery filters False)"
  by (simp_all add: buildJobsQuery_def Let_def)

lemma b_limit_eq: "b_limit (buildJobsQuery filters skip) = min (number_or (f_limit filters) DEFAULT_LIMIT) 50"
  by (simp add: buildJobsQuery_def Let_def)

lemma b_limit_nonzero: "b_limit (buildJobsQuery filters skip) \<noteq> 0"
  by (simp add: b_limit_eq number_or_def DEFAULT_LIMIT_def min_def split: option.splits)

lemma getJobs_limit: "fst (getJobs db filters) = Inr res \<Longrightarrow> 
   r_limit res = b_limit (buildJobsQuery filters False) \<and> r_totalPages res = totalPages_of (r_total res) (r_limit res)"
  by (auto simp: getJobs_def Let_def split: option.splits if_splits)

lemma totalPages_of_pos:
  assumes "0 < limit"
  shows "totalPages_of n limit = max 1 \<lceil>(of_nat n :: rat) / of_int limit\<rceil>"
proof -
  define c where "c = \<lceil>(of_nat n :: rat) / of_int limit\<rceil>"
  have "0 \<le> (of_nat n :: rat) / of_int limit" using assms by simp
  then have "\<lceil>0::rat\<rceil> \<le> \<lceil>(of_nat n :: rat) / of_int limit\<rceil>" by (rule ceiling_mono)
  then have "0 \<le> c" unfolding c_def by (simp only: ceiling_zero)
  moreover have "totalPages_of n limit = (if c = 0 then 1 else c)"
    by (simp add: totalPages_of_def Let_def c_def)
  ultimately have "totalPages_of n limit = max 1 c" by (simp add: max_def)
  then show ?thesis by (simp only: c_def)
qed

lemma ceiling_25_12: "\<lceil>(25::rat) / 12\<rceil> = 3"
  by (rule ceiling_unique) simp_all

lemma ceiling_25_m5: "\<lceil>(25::rat) / (- 5)\<rceil> = - 5"
  by (rule ceiling_unique) simp_all

text \<open>
  C7 (amended). The limit \<^verbatim>\<open>getJobs\<close> returns is the requested limit (12 when absent or zero)
  capped at 50, and for every total and every positive limit
  \<open>totalPages = max 1 (ceil (total / limit))\<close>: 3 for a total of 25 with limit 12, and 1 for a
  total of 0.
\<close>

theorem getJobs_totalPages:
  "(fst (getJobs db filters) = Inr res \<longrightarrow>
      r_limit res = min (number_or (f_limit filters) DEFAULT_LIMIT) 50 \<and>
      (0 < r_limit res \<longrightarrow>
         r_totalPages res = max 1 \<lceil>(of_nat (r_total res) :: rat) / of_int (r_limit res)\<rceil>))
   \<and> totalPages_of 25 12 = 3
   \<and> (0 < limit \<longrightarrow> totalPages_of 0 limit = 1)"
proof (intro conjI impI)
  assume r: "fst (getJobs db filters) = Inr res"
  then show "r_limit res = min (number_or (f_limit filters) DEFAULT_LIMIT) 50"
    using getJobs_limit b_limit_eq by metis
  assume "0 < r_limit res"
  then show "r_totalPages res = max 1 \<lceil>(of_nat (r_total res) :: rat) / of_int (r_limit res)\<rceil>"
    using getJobs_limit[OF r] totalPages_of_pos by simp
next
  show "totalPages_of 25 12 = 3" by (simp add: totalPages_of_def Let_def ceiling_25_12)
next
  assume "0 < limit"
  then show "totalPages_of 0 limit = 1" by (simp add: totalPages_of_def Let_def)
qed

theorem getJobs_totalPages_witness:
  "fst (getJobs (\<lambda>n q. \<lparr>a_data = Some [], a_count = Some 25, a_error = None\<rparr>)
        \<lparr>f_search = None, f_location = None, f_category = None, f_experience = None,
         f_remote = False, f_sort = None, f_page = None, f_limit = Some 12\<rparr>)
     = Inr \<lparr>r_jobs = ([]::unit list), r_total = 25, r_page = 0, r_totalPages = 3, r_limit = 12\<rparr>
   \<and> (0::int) < 12
   \<and> max 1 \<lceil>(of_nat 25 :: rat) / of_int 12\<rceil> = 3"
proof -
  let ?db = "\<lambda>(n::nat) (q::jobs_query). \<lparr>a_data = Some ([]::unit list), a_count = Some 25, a_error = None\<rparr>"
  let ?f = "\<lparr>f_search = None, f_location = None, f_category = None, f_experience = None,
         f_remote = False, f_sort = None, f_page = None, f_limit = Some 12\<rparr>"
  let ?res = "\<lparr>r_jobs = ([]::unit list), r_total = 25, r_page = 0, r_totalPages = 3, r_limit = 12\<rparr>"
  have g: "fst (getJobs ?db ?f) = Inr ?res"
    by (simp add: getJobs_def buildJobsQuery_def Let_def number_or_def totalPages_of_def term_of_def
        ceiling_25_12)
  from getJobs_totalPages [of ?db ?f ?res 1] g
  have "r_totalPages ?res = max 1 \<lceil>(of_nat (r_total ?res) :: rat) / of_int (r_limit ?res)\<rceil>"
    by simp
  then have "max 1 \<lceil>(of_nat 25 :: rat) / of_int 12\<rceil> = 3" by simp
  with g show ?thesis by simp
qed

theorem getJobs_negative_limit_counterexample:
  "fst (getJobs (\<lambda>n q. \<lparr>a_data = Some [], a_count = Some 25, a_error = None\<rparr>)
        \<lparr>f_search = None, f_location = None, f_category = None, f_experience = None,
         f_remote = False, f_sort = None, f_page = None, f_limit = Some (- 5)\<rparr>)
     = Inr \<lparr>r_jobs = ([]::unit list), r_total = 25, r_page = 0, r_totalPages = - 5, r_limit = - 5\<rparr>"
  using ceiling_25_m5
  by (simp add: getJobs_def buildJobsQuery_def Let_def number_or_def totalPages_of_def term_of_def)

lemma getJobs_ok:
  "a_error (db 0 (b_query (buildJobsQuery filters False))) = None \<Longrightarrow>
   snd (getJobs db filters) = [b_query (buildJobsQuery filters False)] \<and> (\<exists>res. fst (getJobs db filters) = Inr res)"
  by (simp add: getJobs_def Let_def)

text \<open>
  C6 (amended). The fallback query is the first query with the category and experience
  terms dropped and everything else (search, location, remote, sort, row range) the same.
  When the first query fails with an error whose code is 42703 or whose message contains
  the text 42703, \<^verbatim>\<open>getJobs\<close> issues exactly that one further query and returns its rows and
  count, or throws its error. Any other error of the first query is thrown after that one
  query.
\<close>

theorem getJobs_schema_fallback:
  "b_query (buildJobsQuery filters True) =
     (b_query (buildJobsQuery filters False))\<lparr>q_category := None, q_experience := None\<rparr>
   \<and> (a_error (db 0 (b_query (buildJobsQuery filters False))) = Some e \<and>
       (e_code e = Some (str ''42703'') \<or>
        sublist (str ''42703'') (case e_message e of None \<Rightarrow> [] | Some m \<Rightarrow> m)) \<longrightarrow>
         snd (getJobs db filters) =
           [b_query (buildJobsQuery filters False), b_query (buildJobsQuery filters True)] \<and>
         (a_error (db 1 (b_query (buildJobsQuery filters True))) = Some e2 \<longrightarrow>
            fst (getJobs db filters) = Inl e2) \<and>
         (a_error (db 1 (b_query (buildJobsQuery filters True))) = None \<longrightarrow>
            fst (getJobs db filters) =
              Inr \<lparr>r_jobs = (case a_data (db 1 (b_query (buildJobsQuery filters True))) of
                               None \<Rightarrow> [] | Some rows \<Rightarrow> rows),
                   r_total = (case a_count (db 1 (b_query (buildJobsQuery filters True))) of
                               None \<Rightarrow> 0 | Some n \<Rightarrow> n),
                   r_page = b_page (buildJobsQuery filters False),
                   r_totalPages = totalPages_of
                      (case a_count (db 1 (b_query (buildJobsQuery filters True))) of
                               None \<Rightarrow> 0 | Some n \<Rightarrow> n) (b_limit (buildJobsQuery filters False)),
                   r_limit = b_limit (buildJobsQuery filters False)\<rparr>))
   \<and> (a_error (db 0 (b_query (buildJobsQuery filters False))) = Some e \<and>
       \<not> (e_code e = Some (str ''42703'') \<or>
          sublist (str ''42703'') (case e_message e of None \<Rightarrow> [] | Some m \<Rightarrow> m)) \<longrightarrow>
         getJobs db filters = (Inl e, [b_query (buildJobsQuery filters False)]))"
proof (intro conjI impI)
  show "b_query (buildJobsQuery filters True) =
     (b_query (buildJobsQuery filters False))\<lparr>q_category := None, q_experience := None\<rparr>"
    by (rule buildJobsQuery_skip)
next
  assume a: "a_error (db 0 (b_query (buildJobsQuery filters False))) = Some e \<and>
       (e_code e = Some (str ''42703'') \<or>
        sublist (str ''42703'') (case e_message e of None \<Rightarrow> [] | Some m \<Rightarrow> m))"
  then have u: "isUndefinedColumn e" by (simp add: isUndefinedColumn_def PG_UNDEFINED_COLUMN_def)
  from a u show "snd (getJobs db filters) =
           [b_query (buildJobsQuery filters False), b_query (buildJobsQuery filters True)]"
    by (simp add: getJobs_def Let_def split: option.splits)
  {
    assume "a_error (db 1 (b_query (buildJobsQuery filters True))) = Some e2"
    with a u show "fst (getJobs db filters) = Inl e2"
      by (simp add: getJobs_def Let_def)
  }
  {
    assume "a_error (db 1 (b_query (buildJobsQuery filters True))) = None"
    with a u show "fst (getJobs db filters) =
              Inr \<lparr>r_jobs = (case a_data (db 1 (b_query (buildJobsQuery filters True))) of
                               None \<Rightarrow> [] | Some rows \<Rightarrow> rows),
                   r_total = (case a_count (db 1 (b_query (buildJobsQuery filters True))) of
                               None \<Rightarrow> 0 | Some n \<Rightarrow> n),
                   r_page = b_page (buildJobsQuery filters False),
                   r_totalPages = totalPages_of
                      (case a_count (db 1 (b_query (buildJobsQuery filters True))) of
                               None \<Rightarrow> 0 | Some n \<Rightarrow> n) (b_limit (buildJobsQuery filters False)),
                   r_limit = b_limit (buildJobsQuery filters False)\<rparr>"
      by (simp add: getJobs_def Let_def buildJobsQuery_skip)
  }
next
  assume a: "a_error (db 0 (b_query (buildJobsQuery filters False))) = Some e \<and>
       \<not> (e_code e = Some (str ''42703'') \<or>
          sublist (str ''42703'') (case e_message e of None \<Rightarrow> [] | Some m \<Rightarrow> m))"
  then have u: "\<not> isUndefinedColumn e" by (simp add: isUndefinedColumn_def PG_UNDEFINED_COLUMN_def)
  from a u show "getJobs db filters = (Inl e, [b_query (buildJobsQuery filters False)])"
    by (simp add: getJobs_def Let_def)
qed

theorem getJobs_schema_fallback_witness:
  "getJobs (\<lambda>n q. if n = 0
              then \<lparr>a_data = None, a_count = None,
                    a_error = Some \<lparr>e_code = Some (str ''42703''), e_message = None\<rparr>\<rparr>
              else \<lparr>a_data = Some [()], a_count = Some 1, a_error = None\<rparr>)
        \<lparr>f_search = None, f_location = None, f_category = Some (str ''dev''), f_experience = None,
         f_remote = True, f_sort = None, f_page = None, f_limit = None\<rparr>
   = (Inr \<lparr>r_jobs = [()], r_total = 1, r_page = 0, r_totalPages = 1, r_limit = 12\<rparr>,
      [\<lparr>q_ascending = False, q_search = None, q_location = None, q_category = Some (str ''dev''),
        q_experience = None, q_remote = True, q_from = 0, q_to = 11\<rparr>,
       \<lparr>q_ascending = False, q_search = None, q_location = None, q_category = None,
        q_experience = None, q_remote = True, q_from = 0, q_to = 11\<rparr>])"
proof -
  let ?e = "\<lparr>e_code = Some (str ''42703''), e_message = None\<rparr>"
  let ?db = "\<lambda>(n::nat) (q::jobs_query). if n = 0
              then \<lparr>a_data = None, a_count = None, a_error = Some ?e\<rparr>
              else \<lparr>a_data = Some [()], a_count = Some 1, a_error = None\<rparr>"
  let ?f = "\<lparr>f_search = None, f_location = None, f_category = Some (str ''dev''), f_experience = None,
         f_remote = True, f_sort = None, f_page = None, f_limit = None\<rparr>"
  have q1: "b_query (buildJobsQuery ?f False) =
      \<lparr>q_ascending = False, q_search = None, q_location = None, q_category = Some (str ''dev''),
        q_experience = None, q_remote = True, q_from = 0, q_to = 11\<rparr>"
    by (simp add: buildJobsQuery_def Let_def number_or_def term_of_def DEFAULT_LIMIT_def
        trim_def is_ws_def str_def)
  have q2: "b_query (buildJobsQuery ?f True) =
      \<lparr>q_ascending = False, q_search = None, q_location = None, q_category = None,
        q_experience = None, q_remote = True, q_from = 0, q_to = 11\<rparr>"
    by (simp add: buildJobsQuery_def Let_def number_or_def term_of_def DEFAULT_LIMIT_def)
  have b: "b_limit (buildJobsQuery ?f False) = 12" "b_page (buildJobsQuery ?f False) = 0"
    by (simp_all add: buildJobsQuery_def Let_def number_or_def DEFAULT_LIMIT_def)
  have "\<lceil>(1::rat) / 12\<rceil> = 1" by (rule ceiling_unique) simp_all
  then have t: "totalPages_of (Suc 0) 12 = 1" by (simp add: totalPages_of_def Let_def)
  from getJobs_schema_fallback [of ?f ?db ?e]
  have "snd (getJobs ?db ?f) = [b_query (buildJobsQuery ?f False), b_query (buildJobsQuery ?f True)]"
    and "fst (getJobs ?db ?f) =
          Inr \<lparr>r_jobs = [()], r_total = 1, r_page = 0, r_totalPages = 1, r_limit = 12\<rparr>"
    by (simp_all add: b t)
  then show ?thesis unfolding q1 q2 by (metis prod.collapse)
qed

theorem getJobs_other_error_retried_counterexample:
  "e_code \<lparr>e_code = Some (str ''XX000''), e_message = Some (str ''42703'')\<rparr> \<noteq> Some (str ''42703'')
   \<and> fst (getJobs (\<lambda>n q. if n = 0
              then \<lparr>a_data = None, a_count = None,
                    a_error = Some \<lparr>e_code = Some (str ''XX000''), e_message = Some (str ''42703'')\<rparr>\<rparr>
              else \<lparr>a_data = Some [()], a_count = Some 1, a_error = None\<rparr>)
        \<lparr>f_search = None, f_location = None, f_category = None, f_experience = None,
         f_remote = False, f_sort = None, f_page = None, f_limit = None\<rparr>)
     = Inr \<lparr>r_jobs = [()], r_total = 1, r_page = 0, r_totalPages = 1, r_limit = 12\<rparr>"
proof -
  have "\<lceil>(1::rat) / 12\<rceil> = 1" by (rule ceiling_unique) simp_all
  then have t: "totalPages_of (Suc 0) 12 = 1" by (simp add: totalPages_of_def Let_def)
  have c: "str ''XX000'' \<noteq> str ''42703''" by (simp add: str_def)
  show ?thesis
    using c
    by (simp add: getJobs_def Let_def isUndefinedColumn_def PG_UNDEFINED_COLUMN_def
        buildJobsQuery_def number_or_def DEFAULT_LIMIT_def t)
qed


section \<open>Source adapters\<close>

lemma those_eq_Some: "those ys = Some out \<longleftrightarrow> ys = map Some out"
proof (induction ys arbitrary: out)
  case Nil
  show ?case by auto
next
  case (Cons y ys)
  show ?case
  proof (cases y)
    case None
    then show ?thesis by auto
  next
    case (Some a)
    show ?thesis
    proof (cases "those ys")
      case None
      with Some Cons show ?thesis by (cases out) auto
    next
      case (Some zs)
      with \<open>y = Some a\<close> Cons show ?thesis by (cases out) auto
    qed
  qed
qed

lemma those_eq_None: "those ys = None \<longleftrightarrow> None \<in> set ys"
proof (induction ys)
  case Nil
  show ?case by simp
next
  case (Cons y ys)
  then show ?case by (cases y; cases "those ys") auto
qed

lemma hasKeys_iff: "hasKeys j keys \<longleftrightarrow> (\<exists>kvs. j = JObj kvs \<and> set keys \<subseteq> fst ` set kvs)"
  by (cases j) (auto simp: hasKeys_def list_all_iff)

lemma convert_result:
  "(case those ys of None \<Rightarrow> Inl e | Some jobs \<Rightarrow> Inr jobs) = Inr out \<longleftrightarrow> map Some out = ys"
  "(case those ys of None \<Rightarrow> Inl e | Some jobs \<Rightarrow> Inr jobs) = Inl m \<longleftrightarrow> m = e \<and> None \<in> set ys"
  using those_eq_Some[of ys] those_eq_None[of ys]
  by (auto split: option.splits)

lemma string_or_plain:
  "v = None \<or> v = Some JNull \<or> (\<exists>s. v = Some (JStr s)) \<Longrightarrow> string_or v d \<noteq> None"
  by (auto simp: string_or_def)

lemma string_opt_plain:
  "v = None \<or> v = Some JNull \<or> (\<exists>s. v = Some (JStr s)) \<Longrightarrow> string_opt v \<noteq> None"
  by (auto simp: string_opt_def)

lemma first_string_plain:
  "v = None \<or> v = Some JNull \<or> (\<exists>s. v = Some (JStr s)) \<Longrightarrow> first_string v \<noteq> None"
  by (auto simp: first_string_def)

lemma coalesce_plain:
  "a = None \<or> a = Some JNull \<or> (\<exists>s. a = Some (JStr s)) \<Longrightarrow>
   b = None \<or> b = Some JNull \<or> (\<exists>s. b = Some (JStr s)) \<Longrightarrow>
   coalesce a b = None \<or> coalesce a b = Some JNull \<or> (\<exists>s. coalesce a b = Some (JStr s))"
  by (auto simp: coalesce_def)

lemma plain_record_converts:
  assumes "\<forall>k. jsget j k = None \<or> jsget j k = Some JNull \<or> (\<exists>s. jsget j k = Some (JStr s))"
  shows "remotive_job j \<noteq> None" and "remoteok_job j \<noteq> None" and "arbeitnow_job toISO j \<noteq> None"
proof -
  note p = assms[rule_format]
  show "remotive_job j \<noteq> None"
    by (simp add: remotive_job_def bind_eq_None_conv string_or_plain[OF p] string_opt_plain[OF p])
  show "remoteok_job j \<noteq> None"
    by (simp add: remoteok_job_def bind_eq_None_conv string_or_plain[OF p] string_opt_plain[OF p]
        first_string_plain[OF p] string_or_plain[OF coalesce_plain[OF p p]])
  have c: "(case jsget j (str ''created_at'') of
                    Some (JNum n) \<Rightarrow> map_option Some (toISO n)
                  | v \<Rightarrow> string_opt v) \<noteq> None"
    using p[of "str ''created_at''"] by (auto simp: string_opt_def)
  have l: "(case jsget j (str ''location'') of
                Some l \<Rightarrow> if truthy l then js_String l else Some (str ''Remote'')
              | None \<Rightarrow> Some (str ''Remote'')) \<noteq> None"
    using p[of "str ''location''"] by auto
  show "arbeitnow_job toISO j \<noteq> None"
    using c l
    by (simp add: arbeitnow_job_def bind_eq_None_conv string_or_plain[OF p] string_opt_plain[OF p]
        first_string_plain[OF p])
qed

lemma string_or_empty: "v = Some JNull \<or> v = Some (JStr []) \<Longrightarrow> string_or v [] = Some []"
  by (auto simp: string_or_def)

lemma remotive_job_fields:
  assumes "remotive_job j = Some nj"
  shows "Some (title nj) = string_or (jsget j (str ''title'')) []"
    and "Some (company nj) = string_or (jsget j (str ''company_name'')) []"
    and "Some (apply_url nj) = string_or (jsget j (str ''url'')) []"
    and "map_option Some (location nj) =
           Some (string_or (jsget j (str ''candidate_required_location'')) (str ''Remote''))"
  using assms by (auto simp: remotive_job_def bind_eq_Some_conv)

lemma remoteok_job_fields:
  assumes "remoteok_job j = Some nj"
  shows "Some (title nj) = string_or (jsget j (str ''position'')) []"
    and "Some (company nj) = string_or (jsget j (str ''company'')) []"
    and "Some (apply_url nj) =
           string_or (coalesce (jsget j (str ''apply_url'')) (jsget j (str ''url''))) []"
    and "map_option Some (location nj) =
           Some (string_or (jsget j (str ''location'')) (str ''Remote''))"
  using assms by (auto simp: remoteok_job_def bind_eq_Some_conv)

lemma arbeitnow_job_fields:
  assumes "arbeitnow_job toISO j = Some nj"
  shows "Some (title nj) = string_or (jsget j (str ''title'')) []"
    and "Some (company nj) = string_or (jsget j (str ''company_name'')) []"
    and "Some (apply_url nj) = string_or (jsget j (str ''url'')) []"
  using assms by (auto simp: arbeitnow_job_def bind_eq_Some_conv)

text \<open>
  C3 (amended). Each adapter drops, without failing, every element of the response that is
  not an object having the keys \<^verbatim>\<open>url\<close>, \<^verbatim>\<open>title\<close> and \<^verbatim>\<open>company_name\<close> (Remotive, ArbeitNow)
  or \<^verbatim>\<open>position\<close> and \<^verbatim>\<open>apply_url\<close> (RemoteOK, which does not look at the employer name).
  When every remaining element can be normalized, the output is the normalization of the
  remaining elements, in order; a record whose values are strings or \<^verbatim>\<open>null\<close> can always be
  normalized. When the normalization of a remaining element throws, Remotive and RemoteOK
  fail as a whole and ArbeitNow returns the empty list. The test is on the presence of the
  key: a kept record whose title, employer name or URL is \<^verbatim>\<open>null\<close> or empty is normalized
  with that field empty, and a RemoteOK record with a \<^verbatim>\<open>null\<close> \<^verbatim>\<open>apply_url\<close> takes its URL from
  \<^verbatim>\<open>url\<close>.
\<close>

theorem adapters_keep_records_with_keys:
  "(fetchRemotive (Response True st stx (Inr data)) = Inr out \<longleftrightarrow>
      map Some out = map remotive_job
        (filter (\<lambda>j. hasKeys j [str ''url'', str ''title'', str ''company_name''])
           (array_at data (str ''jobs''))))
   \<and> (fetchRemotive (Response True st stx (Inr data)) = Inl m \<longleftrightarrow>
      m = conversion_error \<and>
      (\<exists>j\<in>set (array_at data (str ''jobs'')).
          hasKeys j [str ''url'', str ''title'', str ''company_name''] \<and> remotive_job j = None))
   \<and> (fetchRemoteOk (Response True st stx (Inr (JArr items))) = Inr out \<longleftrightarrow>
      map Some out = map remoteok_job
        (filter (\<lambda>j. hasKeys j [str ''position'', str ''apply_url'']) items))
   \<and> (fetchRemoteOk (Response True st stx (Inr (JArr items))) = Inl m \<longleftrightarrow>
      m = conversion_error \<and>
      (\<exists>j\<in>set items. hasKeys j [str ''position'', str ''apply_url''] \<and> remoteok_job j = None))
   \<and> ((\<forall>j\<in>set (array_at data (str ''data'')).
          hasKeys j [str ''url'', str ''title'', str ''company_name''] \<longrightarrow>
          arbeitnow_job toISO j \<noteq> None) \<longrightarrow>
       map Some (fetchArbeitNow toISO (Response True st stx (Inr data))) =
         map (arbeitnow_job toISO)
           (filter (\<lambda>j. hasKeys j [str ''url'', str ''title'', str ''company_name''])
              (array_at data (str ''data''))))
   \<and> ((\<exists>j\<in>set (array_at data (str ''data'')).
          hasKeys j [str ''url'', str ''title'', str ''company_name''] \<and>
          arbeitnow_job toISO j = None) \<longrightarrow>
       fetchArbeitNow toISO (Response True st stx (Inr data)) = [])
   \<and> (hasKeys j keys \<longleftrightarrow> (\<exists>kvs. j = JObj kvs \<and> set keys \<subseteq> fst ` set kvs))
   \<and> ((\<forall>k. jsget j k = None \<or> jsget j k = Some JNull \<or> (\<exists>s. jsget j k = Some (JStr s))) \<longrightarrow>
       remotive_job j \<noteq> None \<and> remoteok_job j \<noteq> None \<and> arbeitnow_job toISO j \<noteq> None)
   \<and> (remotive_job j = Some nj \<or> arbeitnow_job toISO j = Some nj \<longrightarrow>
       (jsget j (str ''title'') \<in> {Some JNull, Some (JStr [])} \<longrightarrow> title nj = []) \<and>
       (jsget j (str ''company_name'') \<in> {Some JNull, Some (JStr [])} \<longrightarrow> company nj = []) \<and>
       (jsget j (str ''url'') \<in> {Some JNull, Some (JStr [])} \<longrightarrow> apply_url nj = []))
   \<and> (remoteok_job j = Some nj \<longrightarrow>
       (jsget j (str ''position'') \<in> {Some JNull, Some (JStr [])} \<longrightarrow> title nj = []) \<and>
       (jsget j (str ''company'') \<in> {None, Some JNull, Some (JStr [])} \<longrightarrow> company nj = []) \<and>
       (jsget j (str ''apply_url'') = Some (JStr []) \<longrightarrow> apply_url nj = []) \<and>
       (jsget j (str ''apply_url'') = Some JNull \<longrightarrow>
          Some (apply_url nj) = string_or (jsget j (str ''url'')) []))"
proof (intro conjI)
  let ?keptR = "filter (\<lambda>j. hasKeys j [str ''url'', str ''title'', str ''company_name''])
           (array_at data (str ''jobs''))"
  have fR: "fetchRemotive (Response True st stx (Inr data)) =
      (case those (map remotive_job ?keptR) of None \<Rightarrow> Inl conversion_error | Some jobs \<Rightarrow> Inr jobs)"
    by (simp add: fetchRemotive_def fetchJson_def)
  show "fetchRemotive (Response True st stx (Inr data)) = Inr out \<longleftrightarrow>
      map Some out = map remotive_job ?keptR"
    unfolding fR by (rule convert_result)
  show "fetchRemotive (Response True st stx (Inr data)) = Inl m \<longleftrightarrow>
      m = conversion_error \<and>
      (\<exists>j\<in>set (array_at data (str ''jobs'')).
          hasKeys j [str ''url'', str ''title'', str ''company_name''] \<and> remotive_job j = None)"
    unfolding fR convert_result by force
next
  let ?keptO = "filter (\<lambda>j. hasKeys j [str ''position'', str ''apply_url'']) items"
  have fO: "fetchRemoteOk (Response True st stx (Inr (JArr items))) =
      (case those (map remoteok_job ?keptO) of None \<Rightarrow> Inl conversion_error | Some jobs \<Rightarrow> Inr jobs)"
    by (simp add: fetchRemoteOk_def fetchJson_def)
  show "fetchRemoteOk (Response True st stx (Inr (JArr items))) = Inr out \<longleftrightarrow>
      map Some out = map remoteok_job ?keptO"
    unfolding fO by (rule convert_result)
  show "fetchRemoteOk (Response True st stx (Inr (JArr items))) = Inl m \<longleftrightarrow>
      m = conversion_error \<and>
      (\<exists>j\<in>set items. hasKeys j [str ''position'', str ''apply_url''] \<and> remoteok_job j = None)"
    unfolding fO convert_result by force
next
  let ?keptA = "filter (\<lambda>j. hasKeys j [str ''url'', str ''title'', str ''company_name''])
              (array_at data (str ''data''))"
  have fA: "fetchArbeitNow toISO (Response True st stx (Inr data)) =
      (case those (map (arbeitnow_job toISO) ?keptA) of None \<Rightarrow> [] | Some jobs \<Rightarrow> jobs)"
    by (simp add: fetchArbeitNow_def fetchJson_def)
  show "(\<forall>j\<in>set (array_at data (str ''data'')).
          hasKeys j [str ''url'', str ''title'', str ''company_name''] \<longrightarrow>
          arbeitnow_job toISO j \<noteq> None) \<longrightarrow>
       map Some (fetchArbeitNow toISO (Response True st stx (Inr data))) =
         map (arbeitnow_job toISO) ?keptA"
  proof
    assume "\<forall>j\<in>set (array_at data (str ''data'')).
          hasKeys j [str ''url'', str ''title'', str ''company_name''] \<longrightarrow>
          arbeitnow_job toISO j \<noteq> None"
    then have "None \<notin> set (map (arbeitnow_job toISO) ?keptA)" by auto
    then obtain jobs where j: "those (map (arbeitnow_job toISO) ?keptA) = Some jobs"
      using those_eq_None[of "map (arbeitnow_job toISO) ?keptA"] by (cases "those (map (arbeitnow_job toISO) ?keptA)") auto
    then have "map (arbeitnow_job toISO) ?keptA = map Some jobs" by (simp only: those_eq_Some)
    with j show "map Some (fetchArbeitNow toISO (Response True st stx (Inr data))) =
         map (arbeitnow_job toISO) ?keptA"
      unfolding fA by simp
  qed
  show "(\<exists>j\<in>set (array_at data (str ''data'')).
          hasKeys j [str ''url'', str ''title'', str ''company_name''] \<and>
          arbeitnow_job toISO j = None) \<longrightarrow>
       fetchArbeitNow toISO (Response True st stx (Inr data)) = []"
  proof
    assume "\<exists>j\<in>set (array_at data (str ''data'')).
          hasKeys j [str ''url'', str ''title'', str ''company_name''] \<and>
          arbeitnow_job toISO j = None"
    then have "None \<in> set (map (arbeitnow_job toISO) ?keptA)" by force
    then have "those (map (arbeitnow_job toISO) ?keptA) = None" by (simp only: those_eq_None)
    then show "fetchArbeitNow toISO (Response True st stx (Inr data)) = []"
      unfolding fA by simp
  qed
next
  show "hasKeys j keys \<longleftrightarrow> (\<exists>kvs. j = JObj kvs \<and> set keys \<subseteq> fst ` set kvs)"
    by (rule hasKeys_iff)
next
  show "(\<forall>k. jsget j k = None \<or> jsget j k = Some JNull \<or> (\<exists>s. jsget j k = Some (JStr s))) \<longrightarrow>
       remotive_job j \<noteq> None \<and> remoteok_job j \<noteq> None \<and> arbeitnow_job toISO j \<noteq> None"
    using plain_record_converts by blast
next
  show "remotive_job j = Some nj \<or> arbeitnow_job toISO j = Some nj \<longrightarrow>
       (jsget j (str ''title'') \<in> {Some JNull, Some (JStr [])} \<longrightarrow> title nj = []) \<and>
       (jsget j (str ''company_name'') \<in> {Some JNull, Some (JStr [])} \<longrightarrow> company nj = []) \<and>
       (jsget j (str ''url'') \<in> {Some JNull, Some (JStr [])} \<longrightarrow> apply_url nj = [])"
  proof
    assume "remotive_job j = Some nj \<or> arbeitnow_job toISO j = Some nj"
    then have f: "Some (title nj) = string_or (jsget j (str ''title'')) []"
      "Some (company nj) = string_or (jsget j (str ''company_name'')) []"
      "Some (apply_url nj) = string_or (jsget j (str ''url'')) []"
      using remotive_job_fields(1-3) arbeitnow_job_fields by blast+
    show "(jsget j (str ''title'') \<in> {Some JNull, Some (JStr [])} \<longrightarrow> title nj = []) \<and>
       (jsget j (str ''company_name'') \<in> {Some JNull, Some (JStr [])} \<longrightarrow> company nj = []) \<and>
       (jsget j (str ''url'') \<in> {Some JNull, Some (JStr [])} \<longrightarrow> apply_url nj = [])"
      using f string_or_empty by (metis insert_iff empty_iff option.inject)
  qed
next
  show "remoteok_job j = Some nj \<longrightarrow>
       (jsget j (str ''position'') \<in> {Some JNull, Some (JStr [])} \<longrightarrow> title nj = []) \<and>
       (jsget j (str ''company'') \<in> {None, Some JNull, Some (JStr [])} \<longrightarrow> company nj = []) \<and>
       (jsget j (str ''apply_url'') = Some (JStr []) \<longrightarrow> apply_url nj = []) \<and>
       (jsget j (str ''apply_url'') = Some JNull \<longrightarrow>
          Some (apply_url nj) = string_or (jsget j (str ''url'')) [])"
  proof
    assume a: "remoteok_job j = Some nj"
    note f = remoteok_job_fields(1-3)[OF a]
    have 1: "jsget j (str ''position'') \<in> {Some JNull, Some (JStr [])} \<longrightarrow> title nj = []"
      using f(1) by (auto simp: string_or_def)
    have 2: "jsget j (str ''company'') \<in> {None, Some JNull, Some (JStr [])} \<longrightarrow> company nj = []"
      using f(2) by (auto simp: string_or_def)
    have 3: "jsget j (str ''apply_url'') = Some (JStr []) \<longrightarrow> apply_url nj = []"
      using f(3) by (auto simp: string_or_def coalesce_def)
    have 4: "jsget j (str ''apply_url'') = Some JNull \<longrightarrow>
          Some (apply_url nj) = string_or (jsget j (str ''url'')) []"
      using f(3) by (auto simp: coalesce_def)
    from 1 2 3 4 show "(jsget j (str ''position'') \<in> {Some JNull, Some (JStr [])} \<longrightarrow> title nj = []) \<and>
       (jsget j (str ''company'') \<in> {None, Some JNull, Some (JStr [])} \<longrightarrow> company nj = []) \<and>
       (jsget j (str ''apply_url'') = Some (JStr []) \<longrightarrow> apply_url nj = []) \<and>
       (jsget j (str ''apply_url'') = Some JNull \<longrightarrow>
          Some (apply_url nj) = string_or (jsget j (str ''url'')) [])"
      by blast
  qed
qed

theorem adapters_keep_records_with_keys_witness:
  "hasKeys (JObj [(str ''position'', JStr (str ''Dev'')), (str ''apply_url'', JNull),
                  (str ''url'', JStr (str ''u1''))]) [str ''position'', str ''apply_url'']
   \<and> \<not> hasKeys (JStr (str ''legal'')) [str ''position'', str ''apply_url'']
   \<and> fetchRemoteOk (Response True 200 (str ''OK'')
        (Inr (JArr [JStr (str ''legal''),
                    JObj [(str ''position'', JStr (str ''Dev'')), (str ''apply_url'', JNull),
                          (str ''url'', JStr (str ''u1''))]])))
      = Inr [\<lparr>title = str ''Dev'', company = [], location = Some (str ''Remote''),
              description = None, category = None, publication_date = None,
              apply_url = str ''u1'', experience_level = None\<rparr>]"
proof -
  let ?j = "JObj [(str ''position'', JStr (str ''Dev'')), (str ''apply_url'', JNull),
                  (str ''url'', JStr (str ''u1''))]"
  let ?nj = "\<lparr>title = str ''Dev'', company = [], location = Some (str ''Remote''),
              description = None, category = None, publication_date = None,
              apply_url = str ''u1'', experience_level = None\<rparr>"
  have k: "hasKeys ?j [str ''position'', str ''apply_url'']"
    by (simp add: hasKeys_def str_def)
  have n: "\<not> hasKeys (JStr (str ''legal'')) [str ''position'', str ''apply_url'']"
    by (simp add: hasKeys_def)
  have r: "remoteok_job ?j = Some ?nj"
    by (simp add: remoteok_job_def string_or_def string_opt_def first_string_def coalesce_def
        str_def)
  have "map Some [?nj] = map remoteok_job
        (filter (\<lambda>j. hasKeys j [str ''position'', str ''apply_url'']) [JStr (str ''legal''), ?j])"
    using k n r by simp
  then have "fetchRemoteOk (Response True 200 (str ''OK'') (Inr (JArr [JStr (str ''legal''), ?j])))
      = Inr [?nj]"
    using adapters_keep_records_with_keys [where items = "[JStr (str ''legal''), ?j]"
        and out = "[?nj]" and st = 200 and stx = "str ''OK''"]
    by blast
  with k n show ?thesis by blast
qed

theorem adapters_keep_empty_fields_counterexample:
  "fetchRemotive (Response True 200 (str ''OK'')
      (Inr (JObj [(str ''jobs'',
         JArr [JObj [(str ''url'', JStr []), (str ''title'', JStr []), (str ''company_name'', JNull)]])])))
   = Inr [\<lparr>title = [], company = [], location = Some (str ''Remote''), description = None,
           category = None, publication_date = None, apply_url = [], experience_level = None\<rparr>]"
  by (simp add: fetchRemotive_def fetchJson_def array_at_def hasKeys_def remotive_job_def
      string_or_def string_opt_def str_def)


section \<open>Ingestion orchestrator\<close>

lemma GET_fetch_jobs_chain:
  "GET_fetch_jobs None toISO o1 o2 o3 net fail tbl =
     (let (t1, i1, e1) = process_source (net 0) (fail 0) (settle (str ''remotive'') (fetchRemotive o1)) tbl;
          (t2, i2, e2) = process_source (net 1) (fail 1) (settle (str ''remoteok'') (fetchRemoteOk o2)) t1;
          (t3, i3, e3) = process_source (net 2) (fail 2)
                           (settle (str ''arbeitnow'') (Inr (fetchArbeitNow toISO o3))) t2
      in (t3, Inr (i1 + i2 + i3, [e1, e2, e3])))"
  by (simp add: GET_fetch_jobs_def fetchAllJobSources_def Let_def numeral_2_eq_2 split: prod.splits)

lemma process_source_failed:
  "m \<noteq> [] \<Longrightarrow> process_source net fail (settle source (Inl m)) tbl =
     (tbl, 0, \<lparr>s_source = source, s_fetched = 0, s_inserted = 0, s_error = Some m\<rparr>)"
  by (simp add: process_source_def settle_def)

lemma process_source_empty:
  "process_source net fail (settle source (Inr [])) tbl =
     (tbl, 0, \<lparr>s_source = source, s_fetched = 0, s_inserted = 0, s_error = None\<rparr>)"
  by (simp add: process_source_def settle_def ensureJobsEnglish_map)

lemma adapters_fail:
  "fetchJson out = Inl m \<Longrightarrow> fetchRemotive out = Inl m"
  "fetchJson out = Inl m \<Longrightarrow> fetchRemoteOk out = Inl m"
  "fetchJson out = Inl m \<Longrightarrow> fetchArbeitNow toISO out = []"
  by (simp_all add: fetchRemotive_def fetchRemoteOk_def fetchArbeitNow_def)

lemma decimal_nonempty: "decimal n \<noteq> []"
  by (subst decimal.simps) simp

lemma fetchJson_failures:
  "fetchJson (Rejected m) = Inl m"
  "fetchJson (Response False st stx body) = Inl (decimal st @ str '' '' @ stx)"
  "decimal st @ str '' '' @ stx \<noteq> []"
  by (simp_all add: fetchJson_def decimal_nonempty)

text \<open>
  C2 (amended). Let the fetch of one adapter fail with a non-empty message, as a timeout
  (the rejected fetch) and a non-success status (message \<open>status statusText\<close>) do. For
  Remotive and RemoteOK the summary entry of that source has the error set, \<open>fetched = 0\<close>
  and \<open>inserted = 0\<close>. ArbeitNow catches the failure itself and returns no jobs: its entry
  has \<open>fetched = 0\<close> and \<open>inserted = 0\<close> and no error. In each case the other two sources
  are processed as they would be alone, their rows are upserted, and the handler answers
  with the \<open>ok\<close> response and three summary entries.
\<close>

theorem adapter_failure_isolated:
  assumes "fetchJson out = Inl msg" and "msg \<noteq> []"
  shows
  "GET_fetch_jobs None toISO out o2 o3 net fail tbl =
     (let (t2, i2, e2) = process_source (net 1) (fail 1) (settle (str ''remoteok'') (fetchRemoteOk o2)) tbl;
          (t3, i3, e3) = process_source (net 2) (fail 2)
                           (settle (str ''arbeitnow'') (Inr (fetchArbeitNow toISO o3))) t2
      in (t3, Inr (i2 + i3,
            [\<lparr>s_source = str ''remotive'', s_fetched = 0, s_inserted = 0, s_error = Some msg\<rparr>, e2, e3])))
   \<and> GET_fetch_jobs None toISO o1 out o3 net fail tbl =
     (let (t1, i1, e1) = process_source (net 0) (fail 0) (settle (str ''remotive'') (fetchRemotive o1)) tbl;
          (t3, i3, e3) = process_source (net 2) (fail 2)
                           (settle (str ''arbeitnow'') (Inr (fetchArbeitNow toISO o3))) t1
      in (t3, Inr (i1 + i3,
            [e1, \<lparr>s_source = str ''remoteok'', s_fetched = 0, s_inserted = 0, s_error = Some msg\<rparr>, e3])))
   \<and> GET_fetch_jobs None toISO o1 o2 out net fail tbl =
     (let (t1, i1, e1) = process_source (net 0) (fail 0) (settle (str ''remotive'') (fetchRemotive o1)) tbl;
          (t2, i2, e2) = process_source (net 1) (fail 1) (settle (str ''remoteok'') (fetchRemoteOk o2)) t1
      in (t2, Inr (i1 + i2,
            [e1, e2, \<lparr>s_source = str ''arbeitnow'', s_fetched = 0, s_inserted = 0, s_error = None\<rparr>])))
   \<and> (\<exists>tbl' totalInserted e1 e2 e3.
         GET_fetch_jobs None toISO o1 o2 o3 net fail tbl = (tbl', Inr (totalInserted, [e1, e2, e3])))
   \<and> fetchJson (Rejected msg) = Inl msg
   \<and> fetchJson (Response False st stx body) = Inl (decimal st @ str '' '' @ stx)
   \<and> decimal st @ str '' '' @ stx \<noteq> []"
proof (intro conjI)
  show "\<exists>tbl' totalInserted e1 e2 e3.
         GET_fetch_jobs None toISO o1 o2 o3 net fail tbl = (tbl', Inr (totalInserted, [e1, e2, e3]))"
    by (simp add: GET_fetch_jobs_chain Let_def split: prod.splits)
  note f = adapters_fail[OF assms(1)]
  show "GET_fetch_jobs None toISO out o2 o3 net fail tbl =
     (let (t2, i2, e2) = process_source (net 1) (fail 1) (settle (str ''remoteok'') (fetchRemoteOk o2)) tbl;
          (t3, i3, e3) = process_source (net 2) (fail 2)
                           (settle (str ''arbeitnow'') (Inr (fetchArbeitNow toISO o3))) t2
      in (t3, Inr (i2 + i3,
            [\<lparr>s_source = str ''remotive'', s_fetched = 0, s_inserted = 0, s_error = Some msg\<rparr>, e2, e3])))"
    unfolding GET_fetch_jobs_chain f process_source_failed[OF assms(2)]
    by (simp add: Let_def split: prod.splits)
  show "GET_fetch_jobs None toISO o1 out o3 net fail tbl =
     (let (t1, i1, e1) = process_source (net 0) (fail 0) (settle (str ''remotive'') (fetchRemotive o1)) tbl;
          (t3, i3, e3) = process_source (net 2) (fail 2)
                           (settle (str ''arbeitnow'') (Inr (fetchArbeitNow toISO o3))) t1
      in (t3, Inr (i1 + i3,
            [e1, \<lparr>s_source = str ''remoteok'', s_fetched = 0, s_inserted = 0, s_error = Some msg\<rparr>, e3])))"
    unfolding GET_fetch_jobs_chain f process_source_failed[OF assms(2)]
    by (simp add: Let_def split: prod.splits)
  show "GET_fetch_jobs None toISO o1 o2 out net fail tbl =
     (let (t1, i1, e1) = process_source (net 0) (fail 0) (settle (str ''remotive'') (fetchRemotive o1)) tbl;
          (t2, i2, e2) = process_source (net 1) (fail 1) (settle (str ''remoteok'') (fetchRemoteOk o2)) t1
      in (t2, Inr (i1 + i2,
            [e1, e2, \<lparr>s_source = str ''arbeitnow'', s_fetched = 0, s_inserted = 0, s_error = None\<rparr>])))"
    unfolding GET_fetch_jobs_chain f process_source_empty
    by (simp add: Let_def split: prod.splits)
  show "fetchJson (Rejected msg) = Inl msg"
    "fetchJson (Response False st stx body) = Inl (decimal st @ str '' '' @ stx)"
    "decimal st @ str '' '' @ stx \<noteq> []"
    by (rule fetchJson_failures)+
qed

theorem adapter_failure_isolated_witness:
  "fetchJson (Rejected (str ''aborted'')) = Inl (str ''aborted'') \<and> str ''aborted'' \<noteq> []
   \<and> GET_fetch_jobs None (\<lambda>n. None) (Rejected (str ''aborted''))
        (Response True 200 (str ''OK'')
           (Inr (JArr [JObj [(str ''position'', JStr (str ''Dev'')),
                             (str ''company'', JStr (str ''Acme'')),
                             (str ''apply_url'', JStr (str ''u1''))]])))
        (Response True 200 (str ''OK'') (Inr JNull))
        (\<lambda>k i f q. Rejected []) (\<lambda>k. None) []
     = ([\<lparr>db_id = 1, db_title = Some (str ''Dev''), db_company = Some (str ''Acme''),
          db_location = Some (str ''Remote''), db_description = None, db_apply_url = str ''u1''\<rparr>],
        Inr (1, [\<lparr>s_source = str ''remotive'', s_fetched = 0, s_inserted = 0,
                   s_error = Some (str ''aborted'')\<rparr>,
                 \<lparr>s_source = str ''remoteok'', s_fetched = 1, s_inserted = 1, s_error = None\<rparr>,
                 \<lparr>s_source = str ''arbeitnow'', s_fetched = 0, s_inserted = 0, s_error = None\<rparr>]))"
proof -
  let ?net = "\<lambda>(k::nat) (i::nat) (f::field) (q::jsstring). Rejected []"
  let ?o2 = "Response True 200 (str ''OK'')
           (Inr (JArr [JObj [(str ''position'', JStr (str ''Dev'')),
                             (str ''company'', JStr (str ''Acme'')),
                             (str ''apply_url'', JStr (str ''u1''))]]))"
  let ?job = "\<lparr>title = str ''Dev'', company = str ''Acme'', location = Some (str ''Remote''),
        description = None, category = None, publication_date = None, apply_url = str ''u1'',
        experience_level = None\<rparr>"
  have f: "fetchJson (Rejected (str ''aborted'')) = Inl (str ''aborted'')"
    by (simp add: fetchJson_def)
  have n: "str ''aborted'' \<noteq> []" by (simp add: str_def)
  have r2: "fetchRemoteOk ?o2 = Inr [?job]"
    by (simp add: fetchRemoteOk_def fetchJson_def hasKeys_def remoteok_job_def string_or_def
        string_opt_def first_string_def coalesce_def str_def)
  have e: "ensureJobEnglish (?net 1 0) ?job = ?job"
    by (simp add: ensureJobEnglish_def translateToEnglish_def Let_def trim_def is_ws_def
        isLikelyEnglish_def js_length_def units_def str_def diacritic_def)
  have u: "trim (str ''u1'') \<noteq> []" by (simp add: trim_def is_ws_def str_def)
  have p2: "process_source (?net 1) None (settle (str ''remoteok'') (Inr [?job])) [] =
      ([\<lparr>db_id = 1, db_title = Some (str ''Dev''), db_company = Some (str ''Acme''),
          db_location = Some (str ''Remote''), db_description = None, db_apply_url = str ''u1''\<rparr>],
       1, \<lparr>s_source = str ''remoteok'', s_fetched = 1, s_inserted = 1, s_error = None\<rparr>)"
    using u e
    by (simp add: process_source_def settle_def ensureJobsEnglish_map to_row_def
        upsert_ignore_def insert_if_absent_def fresh_id_def)
  have r3: "fetchArbeitNow (\<lambda>n. None) (Response True 200 (str ''OK'') (Inr JNull)) = []"
    by (simp add: fetchArbeitNow_def fetchJson_def array_at_def)
  from adapter_failure_isolated [OF f n, of "\<lambda>n. None" ?o2
      "Response True 200 (str ''OK'') (Inr JNull)" ?net "\<lambda>k. None" "[]"]
  show ?thesis
    using f n by (simp add: r2 r3 p2 process_source_empty)
qed

theorem arbeitnow_failure_unreported_counterexample:
  "fetchJson (Response False 503 (str ''Service Unavailable'') (Inl [])) =
     Inl (str ''503 Service Unavailable'')
   \<and> GET_fetch_jobs None (\<lambda>n. None)
        (Response True 200 (str ''OK'') (Inr JNull))
        (Response True 200 (str ''OK'') (Inr JNull))
        (Response False 503 (str ''Service Unavailable'') (Inl []))
        (\<lambda>k i f q. Rejected []) (\<lambda>k. None) []
     = ([], Inr (0, [\<lparr>s_source = str ''remotive'', s_fetched = 0, s_inserted = 0, s_error = None\<rparr>,
                     \<lparr>s_source = str ''remoteok'', s_fetched = 0, s_inserted = 0, s_error = None\<rparr>,
                     \<lparr>s_source = str ''arbeitnow'', s_fetched = 0, s_inserted = 0, s_error = None\<rparr>]))"
proof -
  have d: "decimal 503 = str ''503''"
    by (simp add: decimal.simps[of 503] decimal.simps[of 50] decimal.simps[of 5] str_def)
  have f: "fetchJson (Response False 503 (str ''Service Unavailable'') (Inl [])) =
     Inl (str ''503 Service Unavailable'')"
    by (simp add: fetchJson_def d) (simp add: str_def)
  have r1: "fetchRemotive (Response True 200 (str ''OK'') (Inr JNull)) = Inr []"
    by (simp add: fetchRemotive_def fetchJson_def array_at_def)
  have r2: "fetchRemoteOk (Response True 200 (str ''OK'') (Inr JNull)) = Inr []"
    by (simp add: fetchRemoteOk_def fetchJson_def)
  have r3: "fetchArbeitNow (\<lambda>n. None) (Response False 503 (str ''Service Unavailable'') (Inl [])) = []"
    by (simp add: fetchArbeitNow_def fetchJson_def)
  show ?thesis
    using f by (simp add: GET_fetch_jobs_chain r1 r2 r3 process_source_empty)
qed

lemma insert_if_absent_present:
  "n_apply_url r \<in> set (map db_apply_url tbl) \<Longrightarrow> insert_if_absent (tbl, ids) r = (tbl, ids)"
  by (simp add: insert_if_absent_def)

lemma insert_if_absent_urls:
  "set (map db_apply_url (fst (insert_if_absent (tbl, ids) r))) =
     insert (n_apply_url r) (set (map db_apply_url tbl))"
  by (auto simp: insert_if_absent_def Let_def)

lemma fold_insert_urls:
  "set (map db_apply_url (fst (fold (\<lambda>r st. insert_if_absent st r) rows st))) =
     set (map db_apply_url (fst st)) \<union> set (map n_apply_url rows)"
proof (induction rows arbitrary: st)
  case Nil
  show ?case by simp
next
  case (Cons r rows)
  obtain tbl ids where st: "st = (tbl, ids)" by (cases st)
  show ?case
    using Cons[of "insert_if_absent st r"] insert_if_absent_urls[of tbl ids r]
    by (auto simp: st)
qed

lemma fold_insert_noop:
  "set (map n_apply_url rows) \<subseteq> set (map db_apply_url tbl) \<Longrightarrow>
   fold (\<lambda>r st. insert_if_absent st r) rows (tbl, ids) = (tbl, ids)"
  by (induction rows) (simp_all add: insert_if_absent_present)

lemma upsert_ignore_noop:
  "set (map n_apply_url rows) \<subseteq> set (map db_apply_url tbl) \<Longrightarrow>
   upsert_ignore fail tbl rows = (tbl, case fail of Some m \<Rightarrow> Inl m | None \<Rightarrow> Inr [])"
  by (simp add: upsert_ignore_def fold_insert_noop split: option.splits)

lemma upsert_ignore_urls:
  "set (map db_apply_url (fst (upsert_ignore None tbl rows))) =
     set (map db_apply_url tbl) \<union> set (map n_apply_url rows)"
proof -
  obtain t i where f: "fold (\<lambda>r st. insert_if_absent st r) rows (tbl, []) = (t, i)"
    by (cases "fold (\<lambda>r st. insert_if_absent st r) rows (tbl, [])")
  then have "fst (upsert_ignore None tbl rows) = t" by (simp add: upsert_ignore_def)
  moreover have "set (map db_apply_url t) = set (map db_apply_url tbl) \<union> set (map n_apply_url rows)"
    using fold_insert_urls[of rows "(tbl, [])"] f by simp
  ultimately show ?thesis by simp
qed

lemma upsert_ignore_mono:
  "set (map db_apply_url tbl) \<subseteq> set (map db_apply_url (fst (upsert_ignore fail tbl rows)))"
proof (cases fail)
  case None
  then show ?thesis using upsert_ignore_urls[of tbl rows] by auto
next
  case (Some m)
  then show ?thesis by (simp add: upsert_ignore_def)
qed

lemma ensureJobEnglish_apply_url: "apply_url (ensureJobEnglish net j) = apply_url j"
  by (simp add: ensureJobEnglish_def Let_def)

lemma rows_apply_urls:
  "map n_apply_url (map to_row (ensureJobsEnglish net js)) = map apply_url js"
proof -
  have "map n_apply_url (map to_row (ensureJobsEnglish net js)) =
        map (\<lambda>p. apply_url (snd p)) (enumerate 0 js)"
    by (simp add: ensureJobsEnglish_map to_row_def ensureJobEnglish_apply_url split_def)
  also have "\<dots> = map apply_url (map snd (enumerate 0 js))" by (simp only: map_map comp_def)
  also have "\<dots> = map apply_url js" by (simp only: map_snd_enumerate)
  finally show ?thesis .
qed

lemma process_source_table:
  "fst (process_source net fail r tbl) =
     (if source_failed r then tbl
      else fst (upsert_ignore fail tbl (map to_row (ensureJobsEnglish net (with_url (fr_jobs r))))))"
  by (auto simp: process_source_def Let_def upsert_ignore_def
      split: prod.splits sum.splits option.splits)

lemma process_source_inserted:
  "fst (snd (process_source net fail r tbl)) =
     (if source_failed r then 0
      else case snd (upsert_ignore fail tbl (map to_row (ensureJobsEnglish net (with_url (fr_jobs r))))) of
             Inl m \<Rightarrow> 0 | Inr ids \<Rightarrow> length ids)"
  by (auto simp: process_source_def Let_def upsert_ignore_def
      split: prod.splits sum.splits option.splits)

lemma process_source_absorbs:
  assumes "\<not> source_failed r \<longrightarrow> set (map apply_url (with_url (fr_jobs r))) \<subseteq> urls tbl"
  shows "fst (process_source net fail r tbl) = tbl"
    and "fst (snd (process_source net fail r tbl)) = 0"
proof -
  let ?rows = "map to_row (ensureJobsEnglish net (with_url (fr_jobs r)))"
  have "\<not> source_failed r \<longrightarrow>
        upsert_ignore fail tbl ?rows = (tbl, case fail of Some m \<Rightarrow> Inl m | None \<Rightarrow> Inr [])"
    using assms by (auto intro!: upsert_ignore_noop simp only: rows_apply_urls)
  then show "fst (process_source net fail r tbl) = tbl"
    and "fst (snd (process_source net fail r tbl)) = 0"
    unfolding process_source_table process_source_inserted
    by (auto split: option.splits)
qed

lemma process_source_covers:
  "\<not> source_failed r \<Longrightarrow>
   set (map apply_url (with_url (fr_jobs r))) \<subseteq> urls (fst (process_source net None r tbl))"
  unfolding process_source_table
  using upsert_ignore_urls[of tbl "map to_row (ensureJobsEnglish net (with_url (fr_jobs r)))"]
  by (simp only: rows_apply_urls if_False) blast

lemma process_source_mono: "urls tbl \<subseteq> urls (fst (process_source net fail r tbl))"
  unfolding process_source_table using upsert_ignore_mono by auto

lemma insert_if_absent_distinct:
  "distinct (map db_apply_url tbl) \<Longrightarrow>
   distinct (map db_apply_url (fst (insert_if_absent (tbl, ids) r)))"
  by (auto simp: insert_if_absent_def)

lemma fold_insert_distinct:
  "distinct (map db_apply_url (fst st)) \<Longrightarrow>
   distinct (map db_apply_url (fst (fold (\<lambda>r st. insert_if_absent st r) rows st)))"
proof (induction rows arbitrary: st)
  case Nil
  then show ?case by simp
next
  case (Cons r rows)
  obtain tbl ids where st: "st = (tbl, ids)" by (cases st)
  from Cons.prems have "distinct (map db_apply_url (fst (insert_if_absent st r)))"
    unfolding st by (simp only: fst_conv insert_if_absent_distinct)
  then show ?case using Cons.IH by simp
qed

lemma upsert_ignore_distinct:
  "distinct (map db_apply_url tbl) \<Longrightarrow>
   distinct (map db_apply_url (fst (upsert_ignore fail tbl rows)))"
proof (cases fail)
  case (Some m)
  assume "distinct (map db_apply_url tbl)"
  with Some show ?thesis by (simp add: upsert_ignore_def)
next
  case None
  assume d: "distinct (map db_apply_url tbl)"
  obtain t i where f: "fold (\<lambda>r st. insert_if_absent st r) rows (tbl, []) = (t, i)"
    by (cases "fold (\<lambda>r st. insert_if_absent st r) rows (tbl, [])")
  have "distinct (map db_apply_url (fst (fold (\<lambda>r st. insert_if_absent st r) rows (tbl, []))))"
    by (rule fold_insert_distinct) (simp add: d)
  with f None show ?thesis by (simp add: upsert_ignore_def)
qed

lemma GET_fetch_jobs_table:
  "fst (GET_fetch_jobs None toISO o1 o2 o3 net fail tbl) =
     fst (process_source (net 2) (fail 2) (settle (str ''arbeitnow'') (Inr (fetchArbeitNow toISO o3)))
       (fst (process_source (net 1) (fail 1) (settle (str ''remoteok'') (fetchRemoteOk o2))
         (fst (process_source (net 0) (fail 0) (settle (str ''remotive'') (fetchRemotive o1)) tbl)))))"
  by (simp add: GET_fetch_jobs_chain Let_def split: prod.splits)

text \<open>
  C1. Processing a source result a second time, with any translation outcomes and any
  storage outcome, leaves the table as the first processing left it and inserts nothing;
  so does a second run of the whole handler on the same adapter responses. An upsert whose
  rows all carry an apply URL that is already stored returns the table unchanged (no row
  added, no stored field overwritten) and no inserted id, and the apply URLs of the table
  stay pairwise distinct.
\<close>

theorem ingestion_idempotent:
  "fst (process_source net2 fail2 r (fst (process_source net1 None r tbl))) =
     fst (process_source net1 None r tbl)
   \<and> fst (snd (process_source net2 fail2 r (fst (process_source net1 None r tbl)))) = 0
   \<and> fst (GET_fetch_jobs None toISO o1 o2 o3 gnet2 gfail2
            (fst (GET_fetch_jobs None toISO o1 o2 o3 gnet1 (\<lambda>k. None) tbl))) =
       fst (GET_fetch_jobs None toISO o1 o2 o3 gnet1 (\<lambda>k. None) tbl)
   \<and> (set (map n_apply_url rows) \<subseteq> urls tbl \<longrightarrow>
        upsert_ignore None tbl rows = (tbl, Inr []))
   \<and> upsert_ignore None (fst (upsert_ignore None tbl rows)) rows =
        (fst (upsert_ignore None tbl rows), Inr [])
   \<and> (distinct (map db_apply_url tbl) \<longrightarrow>
        distinct (map db_apply_url (fst (upsert_ignore fail tbl rows))))"
proof (intro conjI impI)
  let ?t1 = "fst (process_source net1 None r tbl)"
  have c: "\<not> source_failed r \<longrightarrow> set (map apply_url (with_url (fr_jobs r))) \<subseteq> urls ?t1"
    using process_source_covers by blast
  show "fst (process_source net2 fail2 r ?t1) = ?t1"
    and "fst (snd (process_source net2 fail2 r ?t1)) = 0"
    using process_source_absorbs[OF c] by blast+
next
  let ?R1 = "settle (str ''remotive'') (fetchRemotive o1)"
  let ?R2 = "settle (str ''remoteok'') (fetchRemoteOk o2)"
  let ?R3 = "settle (str ''arbeitnow'') (Inr (fetchArbeitNow toISO o3))"
  let ?t1 = "fst (process_source (gnet1 0) None ?R1 tbl)"
  let ?t2 = "fst (process_source (gnet1 1) None ?R2 ?t1)"
  let ?t3 = "fst (process_source (gnet1 2) None ?R3 ?t2)"
  have first: "fst (GET_fetch_jobs None toISO o1 o2 o3 gnet1 (\<lambda>k. None) tbl) = ?t3"
    by (rule GET_fetch_jobs_table)
  have m12: "urls ?t1 \<subseteq> urls ?t2" by (rule process_source_mono)
  have m23: "urls ?t2 \<subseteq> urls ?t3" by (rule process_source_mono)
  have c1: "\<not> source_failed ?R1 \<longrightarrow> set (map apply_url (with_url (fr_jobs ?R1))) \<subseteq> urls ?t3"
    using process_source_covers[of ?R1 "gnet1 0" tbl] m12 m23 by blast
  have c2: "\<not> source_failed ?R2 \<longrightarrow> set (map apply_url (with_url (fr_jobs ?R2))) \<subseteq> urls ?t3"
    using process_source_covers[of ?R2 "gnet1 1" ?t1] m23 by blast
  have c3: "\<not> source_failed ?R3 \<longrightarrow> set (map apply_url (with_url (fr_jobs ?R3))) \<subseteq> urls ?t3"
    using process_source_covers[of ?R3 "gnet1 2" ?t2] by blast
  have s1: "fst (process_source (gnet2 0) (gfail2 0) ?R1 ?t3) = ?t3"
    by (rule process_source_absorbs(1)[OF c1])
  have s2: "fst (process_source (gnet2 1) (gfail2 1) ?R2 ?t3) = ?t3"
    by (rule process_source_absorbs(1)[OF c2])
  have s3: "fst (process_source (gnet2 2) (gfail2 2) ?R3 ?t3) = ?t3"
    by (rule process_source_absorbs(1)[OF c3])
  have "fst (GET_fetch_jobs None toISO o1 o2 o3 gnet2 gfail2 ?t3) = ?t3"
    unfolding GET_fetch_jobs_table s1 s2 s3 ..
  then show "fst (GET_fetch_jobs None toISO o1 o2 o3 gnet2 gfail2
            (fst (GET_fetch_jobs None toISO o1 o2 o3 gnet1 (\<lambda>k. None) tbl))) =
       fst (GET_fetch_jobs None toISO o1 o2 o3 gnet1 (\<lambda>k. None) tbl)"
    by (simp only: first)
next
  assume "set (map n_apply_url rows) \<subseteq> urls tbl"
  then show "upsert_ignore None tbl rows = (tbl, Inr [])"
    using upsert_ignore_noop[of rows tbl None] by simp
next
  have "set (map n_apply_url rows) \<subseteq> urls (fst (upsert_ignore None tbl rows))"
    using upsert_ignore_urls[of tbl rows] by blast
  then show "upsert_ignore None (fst (upsert_ignore None tbl rows)) rows =
        (fst (upsert_ignore None tbl rows), Inr [])"
    using upsert_ignore_noop[of rows "fst (upsert_ignore None tbl rows)" None] by simp
next
  assume "distinct (map db_apply_url tbl)"
  then show "distinct (map db_apply_url (fst (upsert_ignore fail tbl rows)))"
    by (rule upsert_ignore_distinct)
qed

theorem ingestion_idempotent_witness:
  "set (map n_apply_url
      [\<lparr>n_title = str ''Dev II'', n_company = str ''Acme'', n_location = str ''Berlin'',
        n_description = Some (str ''new text''), n_apply_url = str ''u1''\<rparr>])
     \<subseteq> urls [\<lparr>db_id = 1, db_title = Some (str ''Dev''), db_company = Some (str ''Acme''),
          db_location = Some (str ''Remote''), db_description = None, db_apply_url = str ''u1''\<rparr>]
   \<and> upsert_ignore None
        [\<lparr>db_id = 1, db_title = Some (str ''Dev''), db_company = Some (str ''Acme''),
          db_location = Some (str ''Remote''), db_description = None, db_apply_url = str ''u1''\<rparr>]
        [\<lparr>n_title = str ''Dev II'', n_company = str ''Acme'', n_location = str ''Berlin'',
          n_description = Some (str ''new text''), n_apply_url = str ''u1''\<rparr>]
     = ([\<lparr>db_id = 1, db_title = Some (str ''Dev''), db_company = Some (str ''Acme''),
          db_location = Some (str ''Remote''), db_description = None, db_apply_url = str ''u1''\<rparr>],
        Inr [])"
  using ingestion_idempotent [where
      rows = "[\<lparr>n_title = str ''Dev II'', n_company = str ''Acme'', n_location = str ''Berlin'',
          n_description = Some (str ''new text''), n_apply_url = str ''u1''\<rparr>]"
      and tbl = "[\<lparr>db_id = 1, db_title = Some (str ''Dev''), db_company = Some (str ''Acme''),
          db_location = Some (str ''Remote''), db_description = None, db_apply_url = str ''u1''\<rparr>]"]
  by simp



section \<open>Location defaults\<close>

lemma translate_nonempty: "trim l \<noteq> [] \<Longrightarrow> fst (translateToEnglish net l) \<noteq> []"
proof (cases "isLikelyEnglish (trim l)")
  case True
  assume "trim l \<noteq> []"
  with True show ?thesis by (simp add: translateToEnglish_noop)
next
  case False
  assume t: "trim l \<noteq> []"
  show ?thesis
  proof (cases "readTranslation (net (toTranslate (trim l)))")
    case None
    with t False show ?thesis by (simp add: translateToEnglish_call)
  next
    case (Some x)
    then have "x \<noteq> []" unfolding readTranslation_Some_iff by auto
    with t False Some show ?thesis by (simp add: translateToEnglish_call)
  qed
qed

lemma translate_blank: "trim l = [] \<Longrightarrow> fst (translateToEnglish net l) = []"
  by (simp add: translateToEnglish_noop)

lemma ensureJobEnglish_location_eq:
  "location (ensureJobEnglish net j) =
     Some (case location j of None \<Rightarrow> []
           | Some l \<Rightarrow> if l \<noteq> [] then fst (translateToEnglish (net Location) l) else l)"
  by (simp add: ensureJobEnglish_def Let_def)

lemma to_row_location:
  "n_location (to_row (ensureJobEnglish net j)) =
     (case location j of None \<Rightarrow> str ''Remote''
      | Some l \<Rightarrow> if trim l = [] then str ''Remote'' else fst (translateToEnglish (net Location) l))"
proof (cases "location j")
  case None
  then show ?thesis by (simp add: to_row_def ensureJobEnglish_location_eq)
next
  case (Some l)
  show ?thesis
  proof (cases "trim l = []")
    case True
    then have "fst (translateToEnglish (net Location) l) = []" by (rule translate_blank)
    with Some True show ?thesis by (simp add: to_row_def ensureJobEnglish_location_eq)
  next
    case False
    then have "fst (translateToEnglish (net Location) l) \<noteq> []" by (rule translate_nonempty)
    moreover from False have "l \<noteq> []" by (auto simp: trim_Nil)
    ultimately show ?thesis using Some False by (simp add: to_row_def ensureJobEnglish_location_eq)
  qed
qed

lemma Remote_nonempty: "str ''Remote'' \<noteq> []"
  by (simp add: str_def)

lemma to_row_location_nonempty: "n_location (to_row (ensureJobEnglish net j)) \<noteq> []"
  unfolding to_row_location
  by (auto simp: Remote_nonempty translate_nonempty split: option.splits)

lemma translate_Remote: "fst (translateToEnglish net (str ''Remote'')) = str ''Remote''"
  by (simp add: translateToEnglish_def Let_def trim_def is_ws_def isLikelyEnglish_def
      js_length_def units_def str_def diacritic_def)

lemma translate_Worldwide: "fst (translateToEnglish net (str ''Worldwide'')) = str ''Worldwide''"
  by (simp add: translateToEnglish_def Let_def trim_def is_ws_def isLikelyEnglish_def
      js_length_def units_def str_def diacritic_def)

lemma to_row_Remote:
  "location j = Some l \<Longrightarrow> l = [] \<or> l = str ''Remote'' \<Longrightarrow>
   n_location (to_row (ensureJobEnglish net j)) = str ''Remote''"
  unfolding to_row_location by (auto simp: trim_Nil translate_Remote)

lemma adapter_location_default:
  assumes "v \<in> {None, Some JNull, Some (JStr [])}"
  shows "string_or v (str ''Remote'') = Some [] \<or> string_or v (str ''Remote'') = Some (str ''Remote'')"
  using assms by (auto simp: string_or_def)

lemma adapter_location_Remote:
  assumes "v \<in> {None, Some JNull, Some (JStr [])}"
    and "map_option Some (location nj) = Some (string_or v (str ''Remote''))"
  shows "n_location (to_row (ensureJobEnglish net nj)) = str ''Remote''"
proof -
  from assms(2) obtain l where l: "location nj = Some l" "Some l = string_or v (str ''Remote'')"
    by (cases "location nj") auto
  with adapter_location_default[OF assms(1)] have "l = [] \<or> l = str ''Remote''" by auto
  with l(1) show ?thesis by (rule to_row_Remote)
qed

lemma arbeitnow_job_location:
  assumes "arbeitnow_job toISO j = Some aj"
  shows "map_option Some (location aj) =
     Some (case jsget j (str ''location'') of
                Some l \<Rightarrow> if truthy l then js_String l else Some (str ''Remote'')
              | None \<Rightarrow> Some (str ''Remote''))"
proof -
  from assms obtain pubDate expLevel t c loc cat d u where
    "(case jsget j (str ''location'') of
                Some l \<Rightarrow> if truthy l then js_String l else Some (str ''Remote'')
              | None \<Rightarrow> Some (str ''Remote'')) = Some loc"
    "aj = \<lparr>title = t, company = c, location = Some loc, description = d, category = cat,
           publication_date = pubDate, apply_url = u, experience_level = expLevel\<rparr>"
    unfolding arbeitnow_job_def bind_eq_Some_conv by blast
  then show ?thesis by simp
qed

lemma linkedin_job_location:
  assumes "linkedin_job j = Inr lj"
  shows "map_option Some (location lj) =
     Some (string_or (jsget j (str ''location'')) (str ''Worldwide''))"
proof -
  from assms have n: "j \<noteq> JNull" by (auto simp: linkedin_job_def)
  let ?m = "do {
                t \<leftarrow> string_or (jsget j (str ''title'')) [];
                c \<leftarrow> string_or (jsget j (str ''company'')) [];
                l \<leftarrow> string_or (jsget j (str ''location'')) (str ''Worldwide'');
                d \<leftarrow> string_or (jsget j (str ''description'')) [];
                u \<leftarrow> string_or (coalesce (jsget j (str ''link''))
                                  (coalesce (jsget j (str ''job_url'')) (jsget j (str ''url'')))) [];
                Some \<lparr>title = t, company = c, location = Some l, description = Some d,
                      li_apply_url = u\<rparr>
              }"
  from assms n have "?m = Some lj"
    unfolding linkedin_job_def by (cases ?m) simp_all
  then obtain t c l d u where
    "string_or (jsget j (str ''location'')) (str ''Worldwide'') = Some l"
    "lj = \<lparr>title = t, company = c, location = Some l, description = Some d, li_apply_url = u\<rparr>"
    unfolding bind_eq_Some_conv by blast
  then show ?thesis by simp
qed

lemma arbeitnow_location:
  assumes "arbeitnow_job toISO j = Some aj" "jsget j (str ''location'') \<in> {None, Some JNull, Some (JStr [])}"
  shows "location aj = Some (str ''Remote'')"
proof -
  have "(case jsget j (str ''location'') of
                Some l \<Rightarrow> if truthy l then js_String l else Some (str ''Remote'')
              | None \<Rightarrow> Some (str ''Remote'')) = Some (str ''Remote'')"
    using assms(2) by auto
  with arbeitnow_job_location[OF assms(1)] show ?thesis by (cases "location aj") auto
qed

lemma ensureJobsEnglish_elems:
  "y \<in> set (ensureJobsEnglish net js) \<Longrightarrow> \<exists>k j. y = ensureJobEnglish (net k) j"
  by (auto simp: ensureJobsEnglish_map)

lemma linkedin_row_location:
  "n_location (linkedin_row (ensureJobEnglish net lj)) =
     (case location lj of None \<Rightarrow> []
      | Some l \<Rightarrow> if l \<noteq> [] then fst (translateToEnglish (net Location) l) else l)"
  by (simp add: linkedin_row_def ensureJobEnglish_location_eq)

lemma Worldwide_nonempty: "str ''Worldwide'' \<noteq> []"
  by (simp add: str_def)

text \<open>
  C9 (amended). On the path of GET /api/fetch-jobs no row handed to the storage service has
  an empty location, and a record whose location is absent, empty or blank is stored with
  the location \<open>Remote\<close>; this holds in particular for every normalized Remotive, RemoteOK
  or ArbeitNow record that omits the location field or carries it \<^verbatim>\<open>null\<close> or empty. The LinkedIn path
  has its own default: a listing without a location is stored with \<open>Worldwide\<close>.
\<close>

theorem empty_location_defaults:
  "n_location (to_row (ensureJobEnglish net nj)) \<noteq> []
   \<and> ((case location nj of None \<Rightarrow> True | Some l \<Rightarrow> trim l = []) \<longrightarrow>
        n_location (to_row (ensureJobEnglish net nj)) = str ''Remote'')
   \<and> (\<forall>row\<in>set (map to_row (ensureJobsEnglish nets js)). n_location row \<noteq> [])
   \<and> (jsget j (str ''candidate_required_location'') \<in> {None, Some JNull, Some (JStr [])} \<and>
       remotive_job j = Some rj \<longrightarrow>
        n_location (to_row (ensureJobEnglish net rj)) = str ''Remote'')
   \<and> (jsget j (str ''location'') \<in> {None, Some JNull, Some (JStr [])} \<and>
       remoteok_job j = Some oj \<longrightarrow>
        n_location (to_row (ensureJobEnglish net oj)) = str ''Remote'')
   \<and> (jsget j (str ''location'') \<in> {None, Some JNull, Some (JStr [])} \<and>
       arbeitnow_job toISO j = Some aj \<longrightarrow>
        n_location (to_row (ensureJobEnglish net aj)) = str ''Remote'')
   \<and> (jsget j (str ''location'') \<in> {None, Some JNull} \<and> linkedin_job j = Inr lj \<longrightarrow>
        n_location (linkedin_row (ensureJobEnglish net lj)) = str ''Worldwide'')"
proof (intro conjI impI ballI)
  show "n_location (to_row (ensureJobEnglish net nj)) \<noteq> []"
    by (rule to_row_location_nonempty)
next
  assume "case location nj of None \<Rightarrow> True | Some l \<Rightarrow> trim l = []"
  then show "n_location (to_row (ensureJobEnglish net nj)) = str ''Remote''"
    unfolding to_row_location by (simp split: option.splits)
next
  fix row assume "row \<in> set (map to_row (ensureJobsEnglish nets js))"
  then obtain y where "y \<in> set (ensureJobsEnglish nets js)" "row = to_row y" by auto
  then obtain k j' where "row = to_row (ensureJobEnglish (nets k) j')"
    using ensureJobsEnglish_elems by blast
  then show "n_location row \<noteq> []" by (simp only: to_row_location_nonempty not_False_eq_True)
next
  assume a: "jsget j (str ''candidate_required_location'') \<in> {None, Some JNull, Some (JStr [])} \<and>
       remotive_job j = Some rj"
  then have v: "jsget j (str ''candidate_required_location'') \<in> {None, Some JNull, Some (JStr [])}"
    and r: "remotive_job j = Some rj" by simp_all
  show "n_location (to_row (ensureJobEnglish net rj)) = str ''Remote''"
    by (rule adapter_location_Remote[OF v remotive_job_fields(4)[OF r]])
next
  assume a: "jsget j (str ''location'') \<in> {None, Some JNull, Some (JStr [])} \<and>
       remoteok_job j = Some oj"
  then have v: "jsget j (str ''location'') \<in> {None, Some JNull, Some (JStr [])}"
    and r: "remoteok_job j = Some oj" by simp_all
  show "n_location (to_row (ensureJobEnglish net oj)) = str ''Remote''"
    by (rule adapter_location_Remote[OF v remoteok_job_fields(4)[OF r]])
next
  assume a: "jsget j (str ''location'') \<in> {None, Some JNull, Some (JStr [])} \<and>
       arbeitnow_job toISO j = Some aj"
  then have "arbeitnow_job toISO j = Some aj"
    and "jsget j (str ''location'') \<in> {None, Some JNull, Some (JStr [])}" by simp_all
  then have "location aj = Some (str ''Remote'')" by (rule arbeitnow_location)
  then show "n_location (to_row (ensureJobEnglish net aj)) = str ''Remote''"
    by (rule to_row_Remote) simp
next
  assume a: "jsget j (str ''location'') \<in> {None, Some JNull} \<and> linkedin_job j = Inr lj"
  then have "linkedin_job j = Inr lj" by simp
  then have "map_option Some (location lj) =
      Some (string_or (jsget j (str ''location'')) (str ''Worldwide''))"
    by (rule linkedin_job_location)
  moreover from a have "string_or (jsget j (str ''location'')) (str ''Worldwide'') =
      Some (str ''Worldwide'')"
    by (auto simp: string_or_def)
  ultimately have "location lj = Some (str ''Worldwide'')"
    by (cases "location lj") auto
  then show "n_location (linkedin_row (ensureJobEnglish net lj)) = str ''Worldwide''"
    by (simp add: linkedin_row_location Worldwide_nonempty translate_Worldwide)
qed

theorem empty_location_defaults_witness:
  "jsget (JObj [(str ''url'', JStr (str ''u1'')), (str ''title'', JStr (str ''Dev'')),
                (str ''company_name'', JStr (str ''Acme''))])
      (str ''candidate_required_location'') \<in> {None, Some JNull, Some (JStr [])}
   \<and> remotive_job (JObj [(str ''url'', JStr (str ''u1'')), (str ''title'', JStr (str ''Dev'')),
                (str ''company_name'', JStr (str ''Acme''))])
     = Some \<lparr>title = str ''Dev'', company = str ''Acme'', location = Some (str ''Remote''),
             description = None, category = None, publication_date = None,
             apply_url = str ''u1'', experience_level = None\<rparr>
   \<and> n_location (to_row (ensureJobEnglish (\<lambda>f q. Rejected [])
        \<lparr>title = str ''Dev'', company = str ''Acme'', location = Some (str ''Remote''),
         description = None, category = None, publication_date = None,
         apply_url = str ''u1'', experience_level = None\<rparr>)) = str ''Remote''"
proof -
  let ?j = "JObj [(str ''url'', JStr (str ''u1'')), (str ''title'', JStr (str ''Dev'')),
                (str ''company_name'', JStr (str ''Acme''))]"
  let ?rj = "\<lparr>title = str ''Dev'', company = str ''Acme'', location = Some (str ''Remote''),
             description = None, category = None, publication_date = None,
             apply_url = str ''u1'', experience_level = None\<rparr>"
  have g: "jsget ?j (str ''candidate_required_location'') \<in> {None, Some JNull, Some (JStr [])}"
    by (simp add: str_def)
  have r: "remotive_job ?j = Some ?rj"
    by (simp add: remotive_job_def string_or_def string_opt_def str_def)
  from empty_location_defaults [where j = ?j and rj = ?rj and net = "\<lambda>f q. Rejected []"] g r
  have "n_location (to_row (ensureJobEnglish (\<lambda>f q. Rejected []) ?rj)) = str ''Remote''"
    by blast
  with g r show ?thesis by blast
qed

theorem linkedin_location_worldwide_counterexample:
  "jsget (JObj [(str ''link'', JStr (str ''u1'')), (str ''title'', JStr (str ''Dev'')),
                (str ''company'', JStr (str ''Acme''))]) (str ''location'') = None
   \<and> scrapeAndInsertLinkedInJobs
        (Inr (JArr [JObj [(str ''link'', JStr (str ''u1'')), (str ''title'', JStr (str ''Dev'')),
                          (str ''company'', JStr (str ''Acme''))]]))
        (\<lambda>k f q. Rejected []) None []
     = ([\<lparr>db_id = 1, db_title = Some (str ''Dev''), db_company = Some (str ''Acme''),
          db_location = Some (str ''Worldwide''), db_description = Some [],
          db_apply_url = str ''u1''\<rparr>],
        Inr (1, 1))"
proof -
  let ?j = "JObj [(str ''link'', JStr (str ''u1'')), (str ''title'', JStr (str ''Dev'')),
                (str ''company'', JStr (str ''Acme''))]"
  let ?lj = "\<lparr>title = str ''Dev'', company = str ''Acme'', location = Some (str ''Worldwide''),
        description = Some [], li_apply_url = str ''u1''\<rparr>"
  have g: "jsget ?j (str ''location'') = None" by (simp add: str_def)
  have l: "linkedin_job ?j = Inr ?lj"
    by (simp add: linkedin_job_def string_or_def coalesce_def str_def)
  have f: "fetchLinkedInJobs (Inr (JArr [?j])) = Inr [?lj]"
    by (simp add: fetchLinkedInJobs_def l) (simp add: js_length_def units_def str_def)
  have e: "ensureJobEnglish (\<lambda>f q. Rejected []) ?lj = ?lj"
    by (simp add: ensureJobEnglish_def translateToEnglish_def Let_def trim_def is_ws_def
        isLikelyEnglish_def js_length_def units_def str_def diacritic_def)
  show ?thesis
    using g e
    by (simp add: scrapeAndInsertLinkedInJobs_def f ensureJobsEnglish_map
        linkedin_row_def upsert_ignore_def insert_if_absent_def fresh_id_def)
qed


end
